theory Spec2Isabelle
  imports Main "HOL-Library.AList"
begin

section \<open>Python values used by the town simulation\<close>

text \<open>
  A Python \<^verbatim>\<open>str\<close> is a sequence of Unicode code points, so it is modelled as a list of
  code points. The source mixes ASCII words with Chinese words; the latter are written
  here by their code points.
\<close>

type_synonym pystr = "nat list"

definition ascii :: "string \<Rightarrow> pystr" where
  "ascii s = map of_char s"

definition ci_shi :: pystr where
  \<comment> \<open>The literal U+6B64 U+65F6 ("at this moment"), the default predicate.\<close>
  "ci_shi = [27492, 26102]"

definition kong_xian :: pystr where
  \<comment> \<open>The literal U+7A7A U+95F2 ("idle"), the default object.\<close>
  "kong_xian = [31354, 38386]"

definition dui_hua :: pystr where
  \<comment> \<open>The literal U+5BF9 U+8BDD ("chat with").\<close>
  "dui_hua = [23545, 35805]"

definition shui :: pystr where
  \<comment> \<open>The literal U+7761 ("sleep").\<close>
  "shui = [30561]"

definition chuang :: pystr where
  \<comment> \<open>The literal U+5E8A ("bed").\<close>
  "chuang = [24202]"

definition shui_jiao :: pystr where
  \<comment> \<open>The literal U+7761 U+89C9 ("to sleep").\<close>
  "shui_jiao = [30561, 35273]"

datatype py_error = IndexError | KeyError | AssertionError | RuntimeError | InsertError

text \<open>\<^verbatim>\<open>x or d\<close> on an optional string: \<^verbatim>\<open>None\<close> and the empty string are falsy.\<close>

definition str_or :: "pystr option \<Rightarrow> pystr \<Rightarrow> pystr" where
  "str_or x d = (case x of None \<Rightarrow> d | Some s \<Rightarrow> if s = [] then d else s)"

text \<open>\<^verbatim>\<open>x or d\<close> on an optional list.\<close>

definition list_or :: "'a list option \<Rightarrow> 'a list \<Rightarrow> 'a list" where
  "list_or x d = (case x of None \<Rightarrow> d | Some s \<Rightarrow> if s = [] then d else s)"

text \<open>\<^verbatim>\<open>sep.join(xs)\<close>.\<close>

fun join :: "pystr \<Rightarrow> pystr list \<Rightarrow> pystr" where
  "join sep [] = []"
| "join sep [x] = x"
| "join sep (x # y # ys) = x @ sep @ join sep (y # ys)"

text \<open>\<^verbatim>\<open>sub in s\<close> on strings: \<open>sub\<close> occurs as a contiguous piece of \<open>s\<close>.\<close>

fun starts_with :: "pystr \<Rightarrow> pystr \<Rightarrow> bool" where
  "starts_with s [] = True"
| "starts_with [] (c # cs) = False"
| "starts_with (x # xs) (c # cs) = (x = c \<and> starts_with xs cs)"

fun str_in :: "pystr \<Rightarrow> pystr \<Rightarrow> bool" where
  "str_in sub [] = (sub = [])"
| "str_in sub (x # xs) = (starts_with (x # xs) sub \<or> str_in sub xs)"

text \<open>\<^verbatim>\<open>str(n)\<close> for a non-negative integer: its decimal digits.\<close>

function str_nat :: "nat \<Rightarrow> pystr" where
  "str_nat n = (if n < 10 then [48 + n] else str_nat (n div 10) @ [48 + n mod 10])"
  by pat_completeness auto
termination
  by (relation "measure id") auto

declare str_nat.simps [simp del]

text \<open>
  Python resolves a list index \<open>i\<close> against a list of length \<open>n\<close>: \<open>0 \<le> i < n\<close> is the
  position itself, \<open>- n \<le> i < 0\<close> is the position \<open>n + i\<close>, and every other index raises
  \<^verbatim>\<open>IndexError\<close>.
\<close>

definition resolve_index :: "nat \<Rightarrow> int \<Rightarrow> nat option" where
  "resolve_index n i =
     (if 0 \<le> i \<and> i < int n then Some (nat i)
      else if i < 0 \<and> - int n \<le> i then Some (nat (int n + i))
      else None)"

text \<open>\<^verbatim>\<open>xs[i]\<close>.\<close>

definition py_index :: "'a list \<Rightarrow> int \<Rightarrow> py_error + 'a" where
  "py_index xs i =
     (case resolve_index (length xs) i of None \<Rightarrow> Inl IndexError | Some k \<Rightarrow> Inr (xs ! k))"

text \<open>\<^verbatim>\<open>xs[i] = v\<close>.\<close>

definition py_assign :: "'a list \<Rightarrow> int \<Rightarrow> 'a \<Rightarrow> py_error + 'a list" where
  "py_assign xs i v =
     (case resolve_index (length xs) i of None \<Rightarrow> Inl IndexError | Some k \<Rightarrow> Inr (xs[k := v]))"

section \<open>Events (modules/memory/event.py)\<close>

record Event =
  subject :: pystr
  predicate :: pystr
  object :: pystr
  describe :: pystr
  address :: "pystr list"
  emoji :: pystr

text \<open>\<^verbatim>\<open>Event.__init__(subject, predicate, object, address, describe, emoji)\<close>.\<close>

definition Event_init ::
  "pystr \<Rightarrow> pystr option \<Rightarrow> pystr option \<Rightarrow> pystr list option \<Rightarrow> pystr option
     \<Rightarrow> pystr option \<Rightarrow> Event" where
  "Event_init s p ob addr d em =
     \<lparr> subject = s, predicate = str_or p ci_shi, object = str_or ob kong_xian,
       describe = str_or d [], address = list_or addr [], emoji = str_or em [] \<rparr>"

text \<open>The tuple that \<^verbatim>\<open>Event.__hash__\<close> hashes.\<close>

type_synonym event_key = "pystr \<times> pystr \<times> pystr \<times> pystr \<times> pystr"

definition hash_key :: "Event \<Rightarrow> event_key" where
  "hash_key e = (subject e, predicate e, object e, describe e, join (ascii '':'') (address e))"

text \<open>
  \<^verbatim>\<open>Event.__eq__\<close> compares the hashes of the two events. Python's \<^verbatim>\<open>hash\<close> on a tuple
  of strings is a parameter \<open>h\<close> of the model: nothing is assumed about it.
\<close>

definition Event_eq :: "(event_key \<Rightarrow> int) \<Rightarrow> Event \<Rightarrow> Event \<Rightarrow> bool" where
  "Event_eq h e other = (h (hash_key e) = h (hash_key other))"

text \<open>\<^verbatim>\<open>Event.update(predicate=None, object=None, describe=None)\<close>.\<close>

definition Event_update :: "Event \<Rightarrow> pystr option \<Rightarrow> pystr option \<Rightarrow> pystr option \<Rightarrow> Event" where
  "Event_update e p ob d =
     e\<lparr> predicate := str_or p ci_shi, object := str_or ob kong_xian,
        describe := str_or d (describe e) \<rparr>"

text \<open>\<^verbatim>\<open>Event.fit(subject=None, predicate=None, object=None)\<close>.\<close>

definition truthy_str :: "pystr option \<Rightarrow> bool" where
  "truthy_str x = (case x of None \<Rightarrow> False | Some s \<Rightarrow> s \<noteq> [])"

definition fit :: "Event \<Rightarrow> pystr option \<Rightarrow> pystr option \<Rightarrow> pystr option \<Rightarrow> bool" where
  "fit e s p ob =
     (if truthy_str s \<and> Some (subject e) \<noteq> s then False
      else if truthy_str p \<and> Some (predicate e) \<noteq> p then False
      else if truthy_str ob \<and> Some (object e) \<noteq> ob then False
      else True)"

text \<open>\<^verbatim>\<open>Event.get_describe(with_subject=True)\<close>.\<close>

definition get_describe :: "Event \<Rightarrow> bool \<Rightarrow> pystr" where
  "get_describe e with_subject =
     (let d = (if describe e \<noteq> [] then describe e
               else predicate e @ ascii '' '' @ object e)
      in if with_subject
         then (if \<not> str_in (subject e) d then subject e @ ascii '' '' else []) @ d
         else (if starts_with d (subject e @ ascii '' '')
               then drop (length (subject e) + 1) d else d))"

text \<open>
  \<^verbatim>\<open>Event.from_list\<close> receives a tuple or list of subject, predicate and object, with the
  address as an optional fourth element.
\<close>

datatype event_arg =
    AsEvent Event
  | AsTriple pystr "pystr option" "pystr option"
  | AsQuad pystr "pystr option" "pystr option" "pystr list option"

fun from_arg :: "event_arg \<Rightarrow> Event" where
  "from_arg (AsEvent e) = e"
| "from_arg (AsTriple s p ob) = Event_init s p ob None None None"
| "from_arg (AsQuad s p ob addr) = Event_init s p ob addr None None"

section \<open>Tiles (modules/maze.py)\<close>

text \<open>
  The dictionary \<^verbatim>\<open>_events\<close> keeps insertion order, so it is an association list from
  the tag \<^verbatim>\<open>"e_" + str(event_cnt)\<close> to the event; assigning to a tag that is present
  overwrites in place, assigning to a new tag appends.
\<close>

type_synonym coord = "int \<times> int"

record Tile =
  coord :: coord
  tile_address :: "pystr list"
  address_keys :: "pystr list"
  address_map :: "(pystr \<times> pystr) list"
  collision :: bool
  event_cnt :: nat
  events :: "(pystr \<times> Event) list"

definition event_tag :: "nat \<Rightarrow> pystr" where
  "event_tag n = ascii ''e_'' @ str_nat n"

text \<open>\<^verbatim>\<open>Tile.add_event(event)\<close>: returns the tile after the call and the event.\<close>

definition add_event :: "(event_key \<Rightarrow> int) \<Rightarrow> Tile \<Rightarrow> event_arg \<Rightarrow> Tile \<times> Event" where
  "add_event h t arg =
     (let event = from_arg arg
      in if list_all (\<lambda>(tag, e). \<not> Event_eq h e event) (events t)
         then (t\<lparr> events := AList.update (event_tag (event_cnt t)) event (events t),
                   event_cnt := event_cnt t + 1 \<rparr>, event)
         else (t, event))"

text \<open>
  \<^verbatim>\<open>Tile.remove_events(subject=None, event=None)\<close>: returns the tile after the call and
  the removed entries. An \<^verbatim>\<open>Event\<close> object is always truthy.
\<close>

definition remove_events ::
  "(event_key \<Rightarrow> int) \<Rightarrow> Tile \<Rightarrow> pystr option \<Rightarrow> Event option
     \<Rightarrow> Tile \<times> (pystr \<times> Event) list" where
  "remove_events h t s ev =
     (let r_events = filter (\<lambda>(tag, eve).
              (truthy_str s \<and> Some (subject eve) = s)
            \<or> (case ev of None \<Rightarrow> False | Some e \<Rightarrow> Event_eq h eve e)) (events t)
      in (t\<lparr> events := fold (\<lambda>(tag, eve) evs. AList.delete tag evs) r_events (events t) \<rparr>,
          r_events))"

text \<open>
  \<^verbatim>\<open>Tile.update_events(event, match="subject")\<close>: returns the tile after the call and
  the updated entries.
\<close>

definition update_events :: "Tile \<Rightarrow> Event \<Rightarrow> pystr \<Rightarrow> Tile \<times> (pystr \<times> Event) list" where
  "update_events t event match =
     (let hit = (\<lambda>eve. match = ascii ''subject'' \<and> subject eve = subject event)
      in (t\<lparr> events := map (\<lambda>(tag, eve). if hit eve then (tag, event) else (tag, eve))
                             (events t) \<rparr>,
          map (\<lambda>(tag, eve). (tag, event)) (filter (\<lambda>(tag, eve). hit eve) (events t))))"

text \<open>
  The two lines of \<^verbatim>\<open>Agent.move\<close> (its inner \<^verbatim>\<open>_update_tile\<close>) that put the agent's event
  on a tile: \<^verbatim>\<open>if not tile.update_events(ev): tile.add_event(ev)\<close>.
\<close>

definition update_tile_event :: "(event_key \<Rightarrow> int) \<Rightarrow> Tile \<Rightarrow> Event \<Rightarrow> Tile" where
  "update_tile_event h t ev =
     (let (t', u_events) = update_events t ev (ascii ''subject'')
      in if u_events = [] then fst (add_event h t' (AsEvent ev)) else t')"

text \<open>\<^verbatim>\<open>Tile.__init__(coord, world, address_keys, address=None, collision=False)\<close>.\<close>

definition Tile_init ::
  "(event_key \<Rightarrow> int) \<Rightarrow> coord \<Rightarrow> pystr \<Rightarrow> pystr list \<Rightarrow> pystr list option \<Rightarrow> bool \<Rightarrow> Tile" where
  "Tile_init h c world keys addr coll =
     (let a = [world] @ list_or addr [];
          t = \<lparr> coord = c, tile_address = a, address_keys = keys,
                address_map = fold (\<lambda>(k, v) m. AList.update k v m) (zip (take (length a) keys) a) [],
                collision = coll, event_cnt = 0, events = [] \<rparr>
      in if length a = 4
         then fst (add_event h t (AsEvent (Event_init (last a) None None (Some a) None None)))
         else t)"

text \<open>The number of events on a tile whose subject is \<open>s\<close>.\<close>

definition subject_count :: "Tile \<Rightarrow> pystr \<Rightarrow> nat" where
  "subject_count t s = length (filter (\<lambda>(tag, e). subject e = s) (events t))"

text \<open>At most one event per subject: the subjects of the entries are pairwise different.\<close>

definition one_per_subject :: "Tile \<Rightarrow> bool" where
  "one_per_subject t = distinct (map (\<lambda>(tag, e). subject e) (events t))"

text \<open>No two entries of a list of events are equal in the sense of \<^verbatim>\<open>Event.__eq__\<close>.\<close>

fun no_equal_events :: "(event_key \<Rightarrow> int) \<Rightarrow> Event list \<Rightarrow> bool" where
  "no_equal_events h [] = True"
| "no_equal_events h (e # es) = (list_all (\<lambda>e'. \<not> Event_eq h e e') es \<and> no_equal_events h es)"

text \<open>
  A stand-in for Python's \<^verbatim>\<open>hash\<close>, used only to instantiate the parameter \<open>h\<close> in
  closed examples.
\<close>

definition example_hash :: "event_key \<Rightarrow> int" where
  "example_hash k = (case k of (s, p, ob, d, a) \<Rightarrow> int (sum_list (s @ p @ ob @ d @ a)))"

section \<open>The maze (modules/maze.py)\<close>

record Maze =
  maze_height :: int
  maze_width :: int
  tiles :: "Tile list list"

text \<open>\<^verbatim>\<open>Maze.tile_at(coord)\<close> is \<^verbatim>\<open>self.tiles[coord[1]][coord[0]]\<close>.\<close>

definition tile_at :: "Maze \<Rightarrow> coord \<Rightarrow> py_error + Tile" where
  "tile_at mz c =
     (case py_index (tiles mz) (snd c) of
        Inl e \<Rightarrow> Inl e
      | Inr row \<Rightarrow> py_index row (fst c))"

text \<open>
  The list comprehension \<^verbatim>\<open>[c for c in coords if not self.tile_at(c).collision]\<close>: the
  first lookup that raises ends it.
\<close>

fun keep_free :: "Maze \<Rightarrow> coord list \<Rightarrow> py_error + coord list" where
  "keep_free mz [] = Inr []"
| "keep_free mz (c # cs) =
     (case tile_at mz c of
        Inl e \<Rightarrow> Inl e
      | Inr t \<Rightarrow>
          (case keep_free mz cs of
             Inl e \<Rightarrow> Inl e
           | Inr r \<Rightarrow> Inr (if collision t then r else c # r)))"

text \<open>\<^verbatim>\<open>Maze.get_around(coord, no_collision=True)\<close>.\<close>

definition get_around :: "Maze \<Rightarrow> coord \<Rightarrow> bool \<Rightarrow> py_error + coord list" where
  "get_around mz c no_collision =
     (let coords = [(fst c - 1, snd c), (fst c + 1, snd c), (fst c, snd c - 1), (fst c, snd c + 1)]
      in if no_collision then keep_free mz coords else Inr coords)"

text \<open>The grid has \<open>maze_height\<close> rows of \<open>maze_width\<close> tiles, as \<^verbatim>\<open>Maze.__init__\<close> builds it.\<close>

definition grid_ok :: "Maze \<Rightarrow> bool" where
  "grid_ok mz =
     (int (length (tiles mz)) = maze_height mz
      \<and> list_all (\<lambda>row. int (length row) = maze_width mz) (tiles mz))"

definition in_grid :: "Maze \<Rightarrow> coord \<Rightarrow> bool" where
  "in_grid mz c = (0 \<le> fst c \<and> fst c < maze_width mz \<and> 0 \<le> snd c \<and> snd c < maze_height mz)"

text \<open>The tile of a coordinate inside the grid.\<close>

definition grid_tile :: "Maze \<Rightarrow> coord \<Rightarrow> Tile" where
  "grid_tile mz c = tiles mz ! nat (snd c) ! nat (fst c)"

subsection \<open>Path finding\<close>

text \<open>
  The scratch grid \<^verbatim>\<open>map\<close> of \<^verbatim>\<open>find_path\<close> holds the step count of every tile, row by row.
  \<^verbatim>\<open>map[y][x]\<close> and \<^verbatim>\<open>map[y][x] = v\<close> follow Python's index rules in both coordinates.
\<close>

type_synonym grid = "int list list"

definition grid_get :: "grid \<Rightarrow> coord \<Rightarrow> py_error + int" where
  "grid_get m c =
     (case py_index m (snd c) of
        Inl e \<Rightarrow> Inl e
      | Inr row \<Rightarrow> py_index row (fst c))"

definition grid_set :: "grid \<Rightarrow> coord \<Rightarrow> int \<Rightarrow> py_error + grid" where
  "grid_set m c v =
     (case resolve_index (length m) (snd c) of
        None \<Rightarrow> Inl IndexError
      | Some k \<Rightarrow>
          (case py_assign (m ! k) (fst c) v of
             Inl e \<Rightarrow> Inl e
           | Inr row \<Rightarrow> Inr (m[k := row])))"

text \<open>
  The state that the breadth-first loops of \<^verbatim>\<open>find_path\<close> change: the grid \<^verbatim>\<open>map\<close>, the list
  \<^verbatim>\<open>new_frontier\<close> and the set \<^verbatim>\<open>visited\<close>.
\<close>

record bfs_state =
  dist :: grid
  new_frontier :: "coord list"
  visited :: "coord set"

text \<open>The loop \<^verbatim>\<open>for c in self.get_around(f)\<close> with its guarded body.\<close>

fun visit :: "Maze \<Rightarrow> coord \<Rightarrow> coord list \<Rightarrow> bfs_state \<Rightarrow> py_error + bfs_state" where
  "visit mz f [] st = Inr st"
| "visit mz f (c # cs) st =
     (if 0 < fst c \<and> fst c < maze_width mz - 1 \<and> 0 < snd c \<and> snd c < maze_height mz - 1
      then (case grid_get (dist st) c of
              Inl e \<Rightarrow> Inl e
            | Inr d \<Rightarrow>
                if d = 0 \<and> c \<notin> visited st
                then (case grid_get (dist st) f of
                        Inl e \<Rightarrow> Inl e
                      | Inr df \<Rightarrow>
                          (case grid_set (dist st) c (df + 1) of
                             Inl e \<Rightarrow> Inl e
                           | Inr m \<Rightarrow>
                               visit mz f cs
                                 \<lparr> dist = m, new_frontier = new_frontier st @ [c],
                                   visited = insert c (visited st) \<rparr>))
                else visit mz f cs st)
      else visit mz f cs st)"

text \<open>The loop \<^verbatim>\<open>for f in frontier\<close>.\<close>

fun expand :: "Maze \<Rightarrow> coord list \<Rightarrow> bfs_state \<Rightarrow> py_error + bfs_state" where
  "expand mz [] st = Inr st"
| "expand mz (f # fs) st =
     (case get_around mz f True of
        Inl e \<Rightarrow> Inl e
      | Inr cs \<Rightarrow>
          (case visit mz f cs st of
             Inl e \<Rightarrow> Inl e
           | Inr st' \<Rightarrow> expand mz fs st'))"

text \<open>
  The loop \<^verbatim>\<open>while map[dst_coord[1]][dst_coord[0]] == 0\<close>. It has no other exit, so it is a
  partial function: \<open>None\<close> is a loop that never ends, \<open>Some (Inl e)\<close> a raised exception,
  \<open>Some (Inr m)\<close> the grid with which the loop is left.
\<close>

partial_function (option) bfs ::
  "Maze \<Rightarrow> coord \<Rightarrow> grid \<Rightarrow> coord list \<Rightarrow> coord set \<Rightarrow> (py_error + grid) option" where
  "bfs mz dst m frontier vis =
     (case grid_get m dst of
        Inl e \<Rightarrow> Some (Inl e)
      | Inr d \<Rightarrow>
          if d = 0
          then (case expand mz frontier \<lparr> dist = m, new_frontier = [], visited = vis \<rparr> of
                  Inl e \<Rightarrow> Some (Inl e)
                | Inr st \<Rightarrow> bfs mz dst (dist st) (new_frontier st) (visited st))
          else Some (Inr m))"

text \<open>
  The loop \<^verbatim>\<open>for c in self.get_around(path[-1])\<close> of the way back: the first neighbour
  whose step count is \<open>step - 1\<close>, if there is one.
\<close>

fun find_prev :: "grid \<Rightarrow> int \<Rightarrow> coord list \<Rightarrow> py_error + coord option" where
  "find_prev m step [] = Inr None"
| "find_prev m step (c # cs) =
     (case grid_get m c of
        Inl e \<Rightarrow> Inl e
      | Inr d \<Rightarrow> if d = step - 1 then Inr (Some c) else find_prev m step cs)"

text \<open>The loop \<^verbatim>\<open>while step > 1\<close>; \<open>path\<close> is never empty.\<close>

function backtrack :: "Maze \<Rightarrow> grid \<Rightarrow> int \<Rightarrow> coord list \<Rightarrow> py_error + coord list" where
  "backtrack mz m step path =
     (if step > 1
      then (case get_around mz (last path) True of
              Inl e \<Rightarrow> Inl e
            | Inr cs \<Rightarrow>
                (case find_prev m step cs of
                   Inl e \<Rightarrow> Inl e
                 | Inr None \<Rightarrow> backtrack mz m (step - 1) path
                 | Inr (Some c) \<Rightarrow> backtrack mz m (step - 1) (path @ [c])))
      else Inr path)"
  by pat_completeness auto
termination
  by (relation "measure (\<lambda>(mz, m, step, path). nat step)") auto

declare backtrack.simps [simp del]

text \<open>\<^verbatim>\<open>Maze.find_path(src_coord, dst_coord)\<close>; \<open>None\<close> when the call never returns.\<close>

definition find_path :: "Maze \<Rightarrow> coord \<Rightarrow> coord \<Rightarrow> (py_error + coord list) option" where
  "find_path mz src dst =
     (case grid_set (replicate (nat (maze_height mz)) (replicate (nat (maze_width mz)) 0)) src 1 of
        Inl e \<Rightarrow> Some (Inl e)
      | Inr m1 \<Rightarrow>
          (case bfs mz dst m1 [src] {} of
             None \<Rightarrow> None
           | Some (Inl e) \<Rightarrow> Some (Inl e)
           | Some (Inr m) \<Rightarrow>
               (case grid_get m dst of
                  Inl e \<Rightarrow> Some (Inl e)
                | Inr step \<Rightarrow>
                    (case backtrack mz m step [dst] of
                       Inl e \<Rightarrow> Some (Inl e)
                     | Inr path \<Rightarrow> Some (Inr (rev path))))))"

subsection \<open>Example mazes\<close>

text \<open>A tile without address beyond the world, as \<^verbatim>\<open>Maze.__init__\<close> creates it.\<close>

definition plain_tile :: "coord \<Rightarrow> bool \<Rightarrow> Tile" where
  "plain_tile c coll = Tile_init example_hash c (ascii ''town'') [ascii ''world''] None coll"

text \<open>A maze from its rows of collision flags; row \<open>y\<close>, column \<open>x\<close> is the tile \<open>(x, y)\<close>.\<close>

definition maze_of :: "bool list list \<Rightarrow> Maze" where
  "maze_of rows =
     \<lparr> maze_height = int (length rows),
       maze_width = (case rows of [] \<Rightarrow> 0 | r # _ \<Rightarrow> int (length r)),
       tiles = map (\<lambda>(y, row). map (\<lambda>(x, coll). plain_tile (int x, int y) coll) (enumerate 0 row))
                 (enumerate 0 rows) \<rparr>"

text \<open>Three rows of three walkable tiles.\<close>

definition open_maze :: Maze where
  "open_maze = maze_of (replicate 3 (replicate 3 False))"

text \<open>
  Five rows of nine tiles, all of them collision tiles but the corridor from \<open>(2, 2)\<close> to
  \<open>(6, 2)\<close>.
\<close>

definition corridor_maze :: Maze where
  "corridor_maze =
     maze_of [replicate 9 True, replicate 9 True,
              [True, True, False, False, False, False, False, True, True],
              replicate 9 True, replicate 9 True]"

text \<open>The same maze with the corridor blocked at \<open>(4, 2)\<close>.\<close>

definition blocked_maze :: Maze where
  "blocked_maze =
     maze_of [replicate 9 True, replicate 9 True,
              [True, True, False, False, True, False, False, True, True],
              replicate 9 True, replicate 9 True]"

text \<open>
  The scratch grids of \<^verbatim>\<open>find_path\<close> on the blocked corridor: at the start, after marking the
  source \<open>(2, 2)\<close>, and after the first round of the search.
\<close>

definition g0 :: grid where
  "g0 = replicate 5 (replicate 9 0)"

definition g1 :: grid where
  "g1 = [replicate 9 0, replicate 9 0, [0, 0, 1, 0, 0, 0, 0, 0, 0], replicate 9 0, replicate 9 0]"

definition g2 :: grid where
  "g2 = [replicate 9 0, replicate 9 0, [0, 0, 1, 2, 0, 0, 0, 0, 0], replicate 9 0, replicate 9 0]"

section \<open>The daily schedule (modules/memory/schedule.py)\<close>

text \<open>
  A plan is the dictionary \<^verbatim>\<open>{idx, describe, start, duration, decompose}\<close>. Its
  \<^verbatim>\<open>decompose\<close> entry is a list of sub-plans; the empty dictionary that \<^verbatim>\<open>add_plan\<close> stores
  and a missing entry both behave as the empty list in the code below.
\<close>

datatype plan =
  Plan (p_idx: int) (p_describe: pystr) (p_start: int) (p_duration: int) (p_decompose: "plan list")

text \<open>\<^verbatim>\<open>Schedule.plan_stamps(plan)\<close> without a time format: start and end in minutes.\<close>

definition plan_stamps :: "plan \<Rightarrow> int \<times> int" where
  "plan_stamps p = (p_start p, p_start p + p_duration p)"

text \<open>
  The inner loop of \<^verbatim>\<open>Schedule.current_plan\<close>: the first sub-plan that has not ended at
  \<open>total_minute\<close>.
\<close>

fun scan_decompose :: "int \<Rightarrow> plan list \<Rightarrow> plan option" where
  "scan_decompose total_minute [] = None"
| "scan_decompose total_minute (de_plan # rest) =
     (if snd (plan_stamps de_plan) \<le> total_minute then scan_decompose total_minute rest
      else Some de_plan)"

text \<open>The outer loop: \<open>None\<close> when the loop ends without \<^verbatim>\<open>return\<close>.\<close>

fun scan_schedule :: "int \<Rightarrow> plan list \<Rightarrow> (plan \<times> plan) option" where
  "scan_schedule total_minute [] = None"
| "scan_schedule total_minute (p # rest) =
     (if snd (plan_stamps p) \<le> total_minute then scan_schedule total_minute rest
      else (case scan_decompose total_minute (p_decompose p) of
              Some de_plan \<Rightarrow> Some (p, de_plan)
            | None \<Rightarrow> Some (p, p)))"

text \<open>
  \<^verbatim>\<open>Schedule.current_plan()\<close> on the list \<^verbatim>\<open>daily_schedule\<close>, with the timer's minutes since
  midnight as \<open>total_minute\<close>.
\<close>

definition current_plan :: "plan list \<Rightarrow> int \<Rightarrow> py_error + plan \<times> plan" where
  "current_plan daily_schedule total_minute =
     (case scan_schedule total_minute daily_schedule of
        Some r \<Rightarrow> Inr r
      | None \<Rightarrow>
          (case py_index daily_schedule (- 1) of
             Inl e \<Rightarrow> Inl e
           | Inr last_plan \<Rightarrow> Inr (last_plan, last_plan)))"

text \<open>\<^verbatim>\<open>Schedule.decompose(plan)\<close>.\<close>

definition decompose :: "plan \<Rightarrow> bool" where
  "decompose p =
     (let d = p_describe p in
      if length (p_decompose p) > 0 then False
      else if \<not> str_in (ascii ''sleep'') d \<and> \<not> str_in (ascii ''bed'') d then True
      else if \<not> str_in shui d \<and> \<not> str_in chuang d then True
      else if str_in (ascii ''sleeping'') d \<or> str_in (ascii ''asleep'') d
              \<or> str_in (ascii ''in bed'') d then False
      else if str_in shui d \<or> str_in chuang d then False
      else if str_in (ascii ''sleep'') d \<or> str_in (ascii ''bed'') d then p_duration p \<le> 60
      else if str_in shui d \<or> str_in chuang d then p_duration p \<le> 60
      else True)"

text \<open>A night of sleep, described in Chinese only, and a short day of three plans.\<close>

definition sleep_plan :: plan where
  "sleep_plan = Plan 0 shui_jiao 0 480 []"

definition day_plans :: "plan list" where
  "day_plans =
     [Plan 0 shui_jiao 0 360 [],
      Plan 1 (ascii ''breakfast'') 360 60
        [Plan 0 (ascii ''cook'') 360 20 [], Plan 1 (ascii ''eat'') 380 40 []],
      Plan 2 (ascii ''work'') 420 480 []]"

section \<open>The language model client (modules/model/llm_model.py)\<close>

text \<open>The Python values that a prompt's callback or failsafe can be.\<close>

datatype pyval = PNone | PBool bool | PInt int | PStr pystr | PList "pyval list"

text \<open>Python's truth value, as \<^verbatim>\<open>or\<close> tests it.\<close>

fun truthy :: "pyval \<Rightarrow> bool" where
  "truthy PNone = False"
| "truthy (PBool b) = b"
| "truthy (PInt i) = (i \<noteq> 0)"
| "truthy (PStr s) = (s \<noteq> [])"
| "truthy (PList xs) = (xs \<noteq> [])"

text \<open>
  \<^verbatim>\<open>_summary\<close> maps \<^verbatim>\<open>"total"\<close> and every caller to the list of its numbers of calls,
  successes and failures; \<^verbatim>\<open>_meta_responses\<close> collects the raw responses of one call.
\<close>

record llm_state =
  meta_responses :: "pystr list"
  summary :: "(pystr \<times> int list) list"

text \<open>\<^verbatim>\<open>LLMModel.__init__\<close>, as far as these two fields go.\<close>

definition llm_init :: llm_state where
  "llm_init = \<lparr> meta_responses = [], summary = [(ascii ''total'', [0, 0, 0])] \<rparr>"

text \<open>\<^verbatim>\<open>self._summary.setdefault(caller, [0, 0, 0])\<close>.\<close>

definition setdefault :: "(pystr \<times> int list) list \<Rightarrow> pystr \<Rightarrow> (pystr \<times> int list) list" where
  "setdefault sm key =
     (case map_of sm key of None \<Rightarrow> AList.update key [0, 0, 0] sm | Some v \<Rightarrow> sm)"

text \<open>\<^verbatim>\<open>self._summary[key][pos] += 1\<close>; a missing key raises \<^verbatim>\<open>KeyError\<close>.\<close>

definition bump :: "(pystr \<times> int list) list \<Rightarrow> pystr \<Rightarrow> nat \<Rightarrow> py_error + (pystr \<times> int list) list" where
  "bump sm key pos =
     (case map_of sm key of
        None \<Rightarrow> Inl KeyError
      | Some v \<Rightarrow>
          if pos < length v then Inr (AList.update key (v[pos := v ! pos + 1]) sm)
          else Inl IndexError)"

text \<open>
  The loop \<^verbatim>\<open>for _ in range(retry)\<close> of \<^verbatim>\<open>LLMModel.completion\<close>. The backend call
  \<^verbatim>\<open>self._completion(prompt, **kwargs)\<close> is an input of the model: \<open>backend k\<close> is what the
  call of attempt \<open>k\<close> returns or raises. The value of the loop is the value of
  \<open>response\<close> after it: every exception and every \<^verbatim>\<open>None\<close> leaves \<open>response\<close> at \<^verbatim>\<open>None\<close> and
  goes on, anything else breaks out.
\<close>

fun attempts ::
  "(nat \<Rightarrow> py_error + pystr) \<Rightarrow> (pystr \<Rightarrow> py_error + pyval) option \<Rightarrow> pystr
     \<Rightarrow> nat \<Rightarrow> nat \<Rightarrow> llm_state \<Rightarrow> pyval \<times> llm_state" where
  "attempts backend callback caller 0 k st = (PNone, st)"
| "attempts backend callback caller (Suc n) k st =
     (case backend k of
        Inl e \<Rightarrow> attempts backend callback caller n (k + 1) st
      | Inr meta_response \<Rightarrow>
          (let st1 = st\<lparr> meta_responses := meta_responses st @ [meta_response] \<rparr> in
           case bump (summary st1) (ascii ''total'') 0 of
             Inl e \<Rightarrow> attempts backend callback caller n (k + 1) st1
           | Inr sm1 \<Rightarrow>
               (case bump sm1 caller 0 of
                  Inl e \<Rightarrow> attempts backend callback caller n (k + 1) (st1\<lparr> summary := sm1 \<rparr>)
                | Inr sm2 \<Rightarrow>
                    (let st2 = st1\<lparr> summary := sm2 \<rparr> in
                     case (case callback of
                             None \<Rightarrow> Inr (PStr meta_response)
                           | Some f \<Rightarrow> f meta_response) of
                       Inl e \<Rightarrow> attempts backend callback caller n (k + 1) st2
                     | Inr response \<Rightarrow>
                         if response \<noteq> PNone then (response, st2)
                         else attempts backend callback caller n (k + 1) st2))))"

text \<open>
  \<^verbatim>\<open>LLMModel.completion(prompt, retry=10, callback=None, failsafe=None, caller)\<close>: the value
  returned and the state after the call, or the exception of the two statistics updates
  after the loop.
\<close>

definition completion ::
  "(nat \<Rightarrow> py_error + pystr) \<Rightarrow> nat \<Rightarrow> (pystr \<Rightarrow> py_error + pyval) option \<Rightarrow> pyval \<Rightarrow> pystr
     \<Rightarrow> llm_state \<Rightarrow> py_error + pyval \<times> llm_state" where
  "completion backend retry callback failsafe caller st =
     (let st0 = \<lparr> meta_responses = [], summary = setdefault (summary st) caller \<rparr>;
          (response, st1) = attempts backend callback caller retry 0 st0;
          pos = (if response = PNone then 2 else 1)
      in case bump (summary st1) (ascii ''total'') pos of
           Inl e \<Rightarrow> Inl e
         | Inr sm1 \<Rightarrow>
             (case bump sm1 caller pos of
                Inl e \<Rightarrow> Inl e
              | Inr sm2 \<Rightarrow>
                  Inr (if truthy response then response else failsafe,
                       st1\<lparr> summary := sm2 \<rparr>)))"

text \<open>
  An example call, after \<^verbatim>\<open>prompt_wake_up\<close>: the backend answers \<^verbatim>\<open>"0:00"\<close> at once, the
  callback reads the hour before \<^verbatim>\<open>":00"\<close> and caps it at 11, the failsafe is 6.
\<close>

definition midnight_backend :: "nat \<Rightarrow> py_error + pystr" where
  "midnight_backend k = Inr (ascii ''0:00'')"

definition digit_value :: "nat \<Rightarrow> int option" where
  "digit_value c = (if 48 \<le> c \<and> c \<le> 57 then Some (int c - 48) else None)"

fun hour_callback :: "pystr \<Rightarrow> py_error + pyval" where
  "hour_callback (a # b # rest) =
     (case (digit_value a, digit_value b) of
        (Some x, Some y) \<Rightarrow> Inr (PInt (min (10 * x + y) 11))
      | (Some x, None) \<Rightarrow> Inr (PInt x)
      | (None, _) \<Rightarrow> Inl AssertionError)"
| "hour_callback [a] = (case digit_value a of Some x \<Rightarrow> Inr (PInt x) | None \<Rightarrow> Inl AssertionError)"
| "hour_callback [] = Inl AssertionError"

section \<open>The vector index (modules/storage/index.py)\<close>

text \<open>
  A node of the index with the metadata that \<^verbatim>\<open>Associate.add_node\<close> gives it. Times are
  seconds on the simulation's clock; the metadata stores them as formatted strings, which
  \<^verbatim>\<open>utils.to_date\<close> reads back unchanged.
\<close>

record node =
  n_id :: pystr
  node_text :: pystr
  m_node_type :: pystr
  m_subject :: pystr
  m_predicate :: pystr
  m_object :: pystr
  m_address :: pystr
  m_poignancy :: int
  m_create :: int
  m_expire :: int
  m_access :: int

text \<open>
  The index: the counter \<^verbatim>\<open>_config["max_nodes"]\<close> and the document store of the vector
  index, from node id to node. The vector index itself is a library object; of its
  \<^verbatim>\<open>insert_nodes\<close> the model keeps that the node is stored under its id, of its
  \<^verbatim>\<open>delete_nodes\<close> that the listed ids are removed from the store.
\<close>

record index =
  max_nodes :: nat
  docs :: "(pystr \<times> node) list"

text \<open>
  The retry loop of \<^verbatim>\<open>LlamaIndex.add_node\<close>. Whether \<^verbatim>\<open>insert_nodes\<close> raises (the embedding
  service fails) is an input: \<open>ok k\<close> tells if attempt \<open>k\<close> succeeds. The loop gives up after
  \<^verbatim>\<open>_max_retries = 3\<close> failures; \<open>left\<close> counts the attempts still allowed.
\<close>

fun add_node_loop ::
  "(nat \<Rightarrow> bool) \<Rightarrow> nat \<Rightarrow> nat \<Rightarrow> pystr option \<Rightarrow> index \<Rightarrow> (pystr \<Rightarrow> node) \<Rightarrow> index \<times> (py_error + node)" where
  "add_node_loop ok 0 k ident ix mk = (ix, Inl InsertError)"
| "add_node_loop ok (Suc left) k ident ix mk =
     (let i = (case ident of None \<Rightarrow> ascii ''node_'' @ str_nat (max_nodes ix) | Some j \<Rightarrow> j);
          ix1 = ix\<lparr> max_nodes := max_nodes ix + 1 \<rparr>;
          nd = mk i
      in if ok k then (ix1\<lparr> docs := AList.update i nd (docs ix1) \<rparr>, Inr nd)
         else if left = 0 then (ix1, Inl InsertError)
         else add_node_loop ok left (k + 1) (Some i) ix1 mk)"

text \<open>
  \<^verbatim>\<open>LlamaIndex.add_node(text, metadata)\<close>; \<open>mk\<close> builds the node with text and metadata
  from the id.
\<close>

definition index_add_node :: "(nat \<Rightarrow> bool) \<Rightarrow> index \<Rightarrow> (pystr \<Rightarrow> node) \<Rightarrow> index \<times> (py_error + node)" where
  "index_add_node ok ix mk = add_node_loop ok 3 0 None ix mk"

text \<open>\<^verbatim>\<open>LlamaIndex.remove_nodes(node_ids)\<close>.\<close>

definition remove_nodes :: "index \<Rightarrow> pystr list \<Rightarrow> index" where
  "remove_nodes ix node_ids = ix\<lparr> docs := filter (\<lambda>(i, nd). i \<notin> set node_ids) (docs ix) \<rparr>"

text \<open>\<^verbatim>\<open>LlamaIndex.has_node\<close> and \<^verbatim>\<open>LlamaIndex.find_node\<close>.\<close>

definition has_node :: "index \<Rightarrow> pystr \<Rightarrow> bool" where
  "has_node ix i = (map_of (docs ix) i \<noteq> None)"

definition find_node :: "index \<Rightarrow> pystr \<Rightarrow> py_error + node" where
  "find_node ix i = (case map_of (docs ix) i of None \<Rightarrow> Inl KeyError | Some nd \<Rightarrow> Inr nd)"

section \<open>The associative memory (modules/memory/associate.py)\<close>

record Concept =
  node_id :: pystr
  node_type :: pystr
  c_event :: Event
  poignancy :: int
  c_create :: int
  c_expire :: int
  c_access :: int

text \<open>\<^verbatim>\<open>s.split(":")\<close>.\<close>

fun split_colon :: "pystr \<Rightarrow> pystr list" where
  "split_colon [] = [[]]"
| "split_colon (c # cs) =
     (if c = 58 then [] # split_colon cs
      else (case split_colon cs of
              [] \<Rightarrow> [[c]]
            | w # ws \<Rightarrow> (c # w) # ws))"

definition days30 :: int where
  "days30 = 30 * 24 * 60 * 60"

text \<open>
  \<^verbatim>\<open>Concept.__init__\<close>; \<open>now\<close> is the timer's date, used for a missing creation time.
\<close>

definition Concept_init ::
  "int \<Rightarrow> pystr \<Rightarrow> pystr \<Rightarrow> pystr \<Rightarrow> pystr \<Rightarrow> pystr \<Rightarrow> pystr \<Rightarrow> pystr \<Rightarrow> int
     \<Rightarrow> int option \<Rightarrow> int option \<Rightarrow> int option \<Rightarrow> Concept" where
  "Concept_init now des nid ntype s p ob addr poig cr ex ac =
     (let c = (case cr of None \<Rightarrow> now | Some t \<Rightarrow> t)
      in \<lparr> node_id = nid, node_type = ntype,
           c_event = Event_init s (Some p) (Some ob) (Some (split_colon addr)) (Some des) None,
           poignancy = poig, c_create = c,
           c_expire = (case ex of None \<Rightarrow> c + days30 | Some t \<Rightarrow> t),
           c_access = (case ac of None \<Rightarrow> c | Some t \<Rightarrow> t) \<rparr>)"

text \<open>\<^verbatim>\<open>Concept.from_node\<close> and \<^verbatim>\<open>Concept.from_event\<close>.\<close>

definition from_node :: "int \<Rightarrow> node \<Rightarrow> Concept" where
  "from_node now nd =
     Concept_init now (node_text nd) (n_id nd) (m_node_type nd) (m_subject nd) (m_predicate nd)
       (m_object nd) (m_address nd) (m_poignancy nd)
       (Some (m_create nd)) (Some (m_expire nd)) (Some (m_access nd))"

definition from_event :: "int \<Rightarrow> pystr \<Rightarrow> pystr \<Rightarrow> Event \<Rightarrow> int \<Rightarrow> Concept" where
  "from_event now nid ntype e poig =
     Concept_init now (get_describe e True) nid ntype (subject e) (predicate e) (object e)
       (join (ascii '':'') (address e)) poig None None None"

text \<open>
  The memory: the lists of node ids by node type, newest first, the capacity
  \<^verbatim>\<open>max_memory\<close> (\<open>-1\<close> for no limit), the number \<^verbatim>\<open>retention\<close> of nodes that a retrieval
  returns, and the index.
\<close>

record Associate =
  memory :: "(pystr \<times> pystr list) list"
  max_memory :: int
  retention :: int
  a_index :: index

text \<open>
  \<^verbatim>\<open>Associate.add_node(node_type, event, poignancy, create=None, expire=None)\<close>: the memory
  after the call and the concept returned, \<open>None\<close> when the index could not store the
  node. \<^verbatim>\<open>self.memory[node_type]\<close> raises \<^verbatim>\<open>KeyError\<close> for an unknown node type.
\<close>

definition add_node ::
  "(nat \<Rightarrow> bool) \<Rightarrow> int \<Rightarrow> Associate \<Rightarrow> pystr \<Rightarrow> Event \<Rightarrow> int \<Rightarrow> int option \<Rightarrow> int option
     \<Rightarrow> py_error + Associate \<times> Concept option" where
  "add_node ok now a ntype event poig cr ex =
     (let c = (case cr of None \<Rightarrow> now | Some t \<Rightarrow> t);
          x = (case ex of None \<Rightarrow> c + days30 | Some t \<Rightarrow> t);
          mk = (\<lambda>i. \<lparr> n_id = i, node_text = get_describe event True, m_node_type = ntype,
                      m_subject = subject event, m_predicate = predicate event,
                      m_object = object event, m_address = join (ascii '':'') (address event),
                      m_poignancy = poig, m_create = c, m_expire = x, m_access = c \<rparr>);
          (ix, r) = index_add_node ok (a_index a) mk
      in case r of
           Inl e \<Rightarrow> Inr (a\<lparr> a_index := ix \<rparr>, None)
         | Inr nd \<Rightarrow>
             (case map_of (memory a) ntype of
                None \<Rightarrow> Inl KeyError
              | Some old \<Rightarrow>
                  (let mem = n_id nd # old
                   in if int (length mem) \<ge> max_memory a \<and> max_memory a > 0
                      then Inr (a\<lparr> a_index := remove_nodes ix (drop (nat (max_memory a)) mem),
                                   memory := AList.update ntype
                                               (take (nat (max_memory a - 1)) mem) (memory a) \<rparr>,
                                Some (from_node now nd))
                      else Inr (a\<lparr> a_index := ix,
                                   memory := AList.update ntype mem (memory a) \<rparr>,
                                Some (from_node now nd)))))"

text \<open>
  \<^verbatim>\<open>Associate._retrieve_nodes(node_type)\<close> without search text, as \<^verbatim>\<open>retrieve_events()\<close>
  and \<^verbatim>\<open>retrieve_chats()\<close> call it: the first \<^verbatim>\<open>retention\<close> nodes of the list as concepts.
\<close>

fun find_nodes :: "index \<Rightarrow> pystr list \<Rightarrow> py_error + node list" where
  "find_nodes ix [] = Inr []"
| "find_nodes ix (i # is) =
     (case find_node ix i of
        Inl e \<Rightarrow> Inl e
      | Inr nd \<Rightarrow> (case find_nodes ix is of Inl e \<Rightarrow> Inl e | Inr nds \<Rightarrow> Inr (nd # nds)))"

text \<open>The slice \<^verbatim>\<open>xs[:n]\<close>.\<close>

definition py_take :: "int \<Rightarrow> 'a list \<Rightarrow> 'a list" where
  "py_take n xs = (if 0 \<le> n then take (nat n) xs else take (length xs - nat (- n)) xs)"

definition retrieve_nodes :: "int \<Rightarrow> Associate \<Rightarrow> pystr \<Rightarrow> py_error + Concept list" where
  "retrieve_nodes now a ntype =
     (case map_of (memory a) ntype of
        None \<Rightarrow> Inl KeyError
      | Some ids \<Rightarrow>
          (case find_nodes (a_index a) ids of
             Inl e \<Rightarrow> Inl e
           | Inr nds \<Rightarrow> Inr (map (from_node now) (py_take (retention a) nds))))"

subsection \<open>An example memory\<close>

text \<open>
  A memory with capacity 2 that holds two event nodes, as a checkpoint saved under a
  larger capacity can hand it to \<^verbatim>\<open>Associate.__init__\<close>; and an empty memory.
\<close>

definition ev_read :: Event where
  "ev_read = Event_init (ascii ''Bob'') (Some (ascii ''reads'')) (Some (ascii ''a book''))
               None None None"

definition old_node :: "pystr \<Rightarrow> node" where
  "old_node i =
     \<lparr> n_id = i, node_text = ascii ''Bob sits'', m_node_type = ascii ''event'',
       m_subject = ascii ''Bob'', m_predicate = ascii ''sits'', m_object = ascii ''down'',
       m_address = [], m_poignancy = 2, m_create = 0, m_expire = days30, m_access = 0 \<rparr>"

definition full_memory :: Associate where
  "full_memory =
     \<lparr> memory = [(ascii ''event'', [ascii ''node_1'', ascii ''node_0'']),
                 (ascii ''thought'', []), (ascii ''chat'', [])],
       max_memory = 2, retention = 8,
       a_index = \<lparr> max_nodes = 2,
                   docs = [(ascii ''node_0'', old_node (ascii ''node_0'')),
                           (ascii ''node_1'', old_node (ascii ''node_1''))] \<rparr> \<rparr>"

definition empty_memory :: Associate where
  "empty_memory =
     \<lparr> memory = [(ascii ''event'', []), (ascii ''thought'', []), (ascii ''chat'', [])],
       max_memory = - 1, retention = 8,
       a_index = \<lparr> max_nodes = 0, docs = [] \<rparr> \<rparr>"

section \<open>Perception (modules/agent.py)\<close>

text \<open>
  The part of an agent that \<^verbatim>\<open>Agent.percept\<close> reads and writes: its name, the number
  \<^verbatim>\<open>status["poignancy"]\<close>, the list \<^verbatim>\<open>concepts\<close> and the memory.
\<close>

record Agent =
  name :: pystr
  status_poignancy :: int
  concepts :: "Concept list"
  associate :: Associate

text \<open>
  What the agent's surroundings decide during one \<^verbatim>\<open>percept\<close>: the result of
  \<^verbatim>\<open>Agent.completion(hint, event)\<close> for the two poignancy prompts (an integer, or the
  \<^verbatim>\<open>RuntimeError\<close> of an unavailable model), whether the index can store the node of the
  event at position \<open>idx\<close> at attempt \<open>k\<close>, the timer's date, and the id of a temporary
  concept (built from the wall clock).
\<close>

record env =
  ask :: "pystr \<Rightarrow> Event \<Rightarrow> py_error + int"
  insert_ok :: "nat \<Rightarrow> nat \<Rightarrow> bool"
  clock :: int
  tmp_id :: pystr

text \<open>
  \<^verbatim>\<open>Agent._add_concept(e_type, event, create=None, expire=None)\<close>. After
  \<^verbatim>\<open>associate.add_node\<close> the method has one more statement, \<^verbatim>\<open>if concept is None:\<close> with a
  \<^verbatim>\<open>return\<close> of a temporary concept; when the concept is not \<^verbatim>\<open>None\<close> the body ends without
  \<^verbatim>\<open>return\<close>, and the call yields \<^verbatim>\<open>None\<close>.
\<close>

definition add_concept ::
  "env \<Rightarrow> (nat \<Rightarrow> bool) \<Rightarrow> Agent \<Rightarrow> pystr \<Rightarrow> Event \<Rightarrow> int option \<Rightarrow> int option
     \<Rightarrow> py_error + Agent \<times> Concept option" where
  "add_concept en ok ag e_type event cr ex =
     (case (if fit event None (Some (ascii ''is'')) (Some (ascii ''idle'')) then Inr 1
            else if fit event None (Some ci_shi) (Some kong_xian) then Inr 1
            else if e_type = ascii ''chat'' then ask en (ascii ''poignancy_chat'') event
            else ask en (ascii ''poignancy_event'') event) of
        Inl e \<Rightarrow> Inl e
      | Inr poig \<Rightarrow>
          (case add_node ok (clock en) (associate ag) e_type event poig cr ex of
             Inl e \<Rightarrow> Inl e
           | Inr (a, concept) \<Rightarrow>
               (case concept of
                  None \<Rightarrow>
                    Inr (ag\<lparr> associate := a \<rparr>,
                         Some (from_event (clock en) (tmp_id en) e_type event poig))
                | Some c \<Rightarrow> Inr (ag\<lparr> associate := a \<rparr>, None))))"

text \<open>
  The loop \<^verbatim>\<open>for idx, event in enumerate(events[:att_bandwidth])\<close> of \<^verbatim>\<open>Agent.percept\<close>,
  carrying the agent and the counter \<^verbatim>\<open>valid_num\<close>.
\<close>

fun percept_loop :: "env \<Rightarrow> nat \<Rightarrow> Event list \<Rightarrow> Agent \<times> nat \<Rightarrow> py_error + Agent \<times> nat" where
  "percept_loop en idx [] st = Inr st"
| "percept_loop en idx (event # rest) (ag, valid_num) =
     (case retrieve_nodes (clock en) (associate ag) (ascii ''event'') of
        Inl e \<Rightarrow> Inl e
      | Inr evs \<Rightarrow>
          (case retrieve_nodes (clock en) (associate ag) (ascii ''chat'') of
             Inl e \<Rightarrow> Inl e
           | Inr chats \<Rightarrow>
               if get_describe event True
                    \<notin> set (map (\<lambda>c. get_describe (c_event c) True) (evs @ chats))
               then (if object event = ascii ''idle'' \<or> object event = kong_xian
                     then percept_loop en (idx + 1) rest
                            (ag\<lparr> concepts := concepts ag
                                   @ [from_event (clock en) (ascii ''idle_'' @ str_nat idx)
                                        (ascii ''event'') event 1] \<rparr>, valid_num)
                     else (case add_concept en (insert_ok en idx) ag
                                  (if fit event (Some (name ag)) (Some dui_hua) None
                                   then ascii ''chat'' else ascii ''event'') event None None of
                             Inl e \<Rightarrow> Inl e
                           | Inr (ag', node) \<Rightarrow>
                               (case node of
                                  Some n \<Rightarrow>
                                    percept_loop en (idx + 1) rest
                                      (ag'\<lparr> status_poignancy := status_poignancy ag' + poignancy n,
                                            concepts := concepts ag' @ [n] \<rparr>, valid_num + 1)
                                | None \<Rightarrow> percept_loop en (idx + 1) rest (ag', valid_num + 1))))
               else percept_loop en (idx + 1) rest (ag, valid_num)))"

text \<open>
  \<^verbatim>\<open>Agent.percept()\<close> from the point where the events of the tiles in scope have been
  collected and sorted by distance: \<open>evs\<close> is that sorted list, \<open>att_bandwidth\<close> the
  entry of \<^verbatim>\<open>percept_config\<close>.
\<close>

definition percept :: "env \<Rightarrow> Agent \<Rightarrow> Event list \<Rightarrow> int \<Rightarrow> py_error + Agent" where
  "percept en ag evs att_bandwidth =
     (case percept_loop en 0 (py_take att_bandwidth evs) (ag\<lparr> concepts := [] \<rparr>, 0) of
        Inl e \<Rightarrow> Inl e
      | Inr (ag', valid_num) \<Rightarrow>
          Inr (ag'\<lparr> concepts := filter (\<lambda>c. subject (c_event c) \<noteq> name ag') (concepts ag') \<rparr>))"

text \<open>
  Alice with an empty memory; a model that scores every event 4; an index that stores
  every node at the first attempt.
\<close>

definition alice_agent :: Agent where
  "alice_agent =
     \<lparr> name = ascii ''Alice'', status_poignancy = 0, concepts = [], associate = empty_memory \<rparr>"

definition calm_env :: env where
  "calm_env =
     \<lparr> ask = (\<lambda>hint event. Inr 4), insert_ok = (\<lambda>idx k. True), clock = 100,
       tmp_id = ascii ''tmp_100000'' \<rparr>"

text \<open>Alice's memory once the node of the event \<open>ev_read\<close> is stored with poignancy 4.\<close>

definition read_memory :: Associate where
  "read_memory =
     \<lparr> memory = [(ascii ''event'', [ascii ''node_0'']), (ascii ''thought'', []), (ascii ''chat'', [])],
       max_memory = - 1, retention = 8,
       a_index = \<lparr> max_nodes = 1,
                   docs = [(ascii ''node_0'',
                            \<lparr> n_id = ascii ''node_0'', node_text = get_describe ev_read True,
                              m_node_type = ascii ''event'', m_subject = subject ev_read,
                              m_predicate = predicate ev_read, m_object = object ev_read,
                              m_address = join (ascii '':'') (address ev_read),
                              m_poignancy = 4, m_create = 100, m_expire = 100 + days30,
                              m_access = 100 \<rparr>)] \<rparr> \<rparr>"

text \<open>The grids of the later rounds of the search in the open corridor.\<close>

definition g3 :: grid where
  "g3 = [replicate 9 0, replicate 9 0, [0, 0, 1, 2, 3, 0, 0, 0, 0], replicate 9 0, replicate 9 0]"

definition g4 :: grid where
  "g4 = [replicate 9 0, replicate 9 0, [0, 0, 1, 2, 3, 4, 0, 0, 0], replicate 9 0, replicate 9 0]"

definition g5 :: grid where
  "g5 = [replicate 9 0, replicate 9 0, [0, 0, 1, 2, 3, 4, 5, 0, 0], replicate 9 0, replicate 9 0]"

subsection \<open>Example tiles and events\<close>

definition alice :: pystr where
  "alice = ascii ''Alice''"

definition bob :: pystr where
  "bob = ascii ''Bob''"

definition ev_idle :: Event where
  "ev_idle = Event_init alice None None None None None"

definition ev_chat :: Event where
  "ev_chat = Event_init alice (Some dui_hua) (Some bob) None None None"

definition tile0 :: Tile where
  "tile0 = Tile_init example_hash (1, 1) (ascii ''town'')
     [ascii ''world'', ascii ''sector'', ascii ''arena'', ascii ''game_object''] None False"

definition tile1 :: Tile where
  "tile1 = fst (add_event example_hash tile0 (AsEvent ev_idle))"

section \<open>Verified properties\<close>

subsection \<open>Events and tiles\<close>

lemma hash_key_Event_eq: "hash_key e = hash_key e' \<Longrightarrow> Event_eq h e e'"
  by (simp add: Event_eq_def)

lemma Event_eq_sym: "Event_eq h e e' = Event_eq h e' e"
  by (auto simp: Event_eq_def)

lemma no_equal_events_update:
  "no_equal_events h (map snd evs) \<Longrightarrow> list_all (\<lambda>(tag, e). \<not> Event_eq h e ev) evs
   \<Longrightarrow> no_equal_events h (map snd (AList.update k ev evs))"
proof (induction evs)
  case Nil
  then show ?case by simp
next
  case (Cons p evs)
  obtain tag e where p: "p = (tag, e)" by (cases p)
  have all: "list_all (\<lambda>e'. \<not> Event_eq h e' ev) (map snd evs)"
    using Cons.prems(2) by (auto simp: list_all_iff)
  show ?case
  proof (cases "tag = k")
    case True
    have "list_all (\<lambda>e'. \<not> Event_eq h ev e') (map snd evs)"
      using all by (simp add: list_all_iff Event_eq_sym [of h ev])
    with True p Cons.prems(1) show ?thesis by simp
  next
    case False
    have ne: "\<not> Event_eq h e ev" using Cons.prems(2) p by simp
    have tl: "list_all (\<lambda>(tag, e). \<not> Event_eq h e ev) evs" using Cons.prems(2) by simp
    have ih: "no_equal_events h (map snd (AList.update k ev evs))"
      using Cons.IH Cons.prems(1) tl p by simp
    have "set (map snd (AList.update k ev evs)) \<subseteq> insert ev (set (map snd evs))"
      by (induction evs) auto
    moreover have "list_all (\<lambda>e'. \<not> Event_eq h e e') (map snd evs)"
      using Cons.prems(1) p by simp
    ultimately have "list_all (\<lambda>e'. \<not> Event_eq h e e') (map snd (AList.update k ev evs))"
      using ne unfolding list_all_iff by blast
    with False p ih show ?thesis by simp
  qed
qed

lemma one_per_subject_count: "one_per_subject t = (\<forall>s. subject_count t s \<le> 1)"
proof -
  have "distinct (map f xs) = (\<forall>s. length (filter (\<lambda>x. f x = s) xs) \<le> 1)" for f :: "'a \<Rightarrow> pystr" and xs
  proof (induction xs)
    case Nil
    then show ?case by simp
  next
    case (Cons x xs)
    show ?case
    proof
      assume d: "distinct (map f (x # xs))"
      then have "\<forall>s. length (filter (\<lambda>x. f x = s) xs) \<le> 1" using Cons.IH by simp
      moreover have "filter (\<lambda>y. f y = f x) xs = []"
        using d by (auto simp: filter_empty_conv image_iff)
      ultimately show "\<forall>s. length (filter (\<lambda>x. f x = s) (x # xs)) \<le> 1" by auto
    next
      assume a: "\<forall>s. length (filter (\<lambda>y. f y = s) (x # xs)) \<le> 1"
      have "length (filter (\<lambda>y. f y = s) xs) \<le> 1" for s
        using a [rule_format, of s] by (simp split: if_splits)
      then have dx: "distinct (map f xs)" using Cons.IH by simp
      have "filter (\<lambda>y. f y = f x) xs = []" using a [rule_format, of "f x"] by simp
      then have "f x \<notin> f ` set xs" by (auto simp: filter_empty_conv)
      with dx show "distinct (map f (x # xs))" by simp
    qed
  qed
  from this [of "\<lambda>(tag, e). subject e" "events t"]
  show ?thesis by (simp add: one_per_subject_def subject_count_def case_prod_unfold)
qed

lemma distinct_map_alist_update:
  "distinct (map f evs) \<Longrightarrow> f (k, v) \<notin> f ` set evs \<Longrightarrow> (\<And>k' x. f (k', x) = g x)
   \<Longrightarrow> distinct (map f (AList.update k v evs))"
proof (induction evs)
  case Nil
  then show ?case by simp
next
  case (Cons p evs)
  have sub: "f ` set (AList.update k v evs) \<subseteq> insert (g v) (f ` set evs)"
    using Cons.prems(3) by (induction evs) auto
  obtain k' x where p: "p = (k', x)" by (cases p)
  show ?case
  proof (cases "k' = k")
    case True
    with Cons.prems p show ?thesis by auto
  next
    case False
    have "f p \<notin> f ` set (AList.update k v evs)"
      using sub Cons.prems by auto
    with False p Cons show ?thesis by auto
  qed
qed

lemma distinct_map_alist_delete:
  "distinct (map f evs) \<Longrightarrow> distinct (map f (AList.delete k evs))"
  by (simp add: AList.delete_eq distinct_map_filter)

lemma distinct_map_fold_delete:
  "distinct (map f evs) \<Longrightarrow>
   distinct (map f (fold (\<lambda>(tag, eve) evs. AList.delete tag evs) r evs))"
  by (induction r arbitrary: evs) (auto simp: distinct_map_alist_delete)

lemma update_events_subjects:
  "map (\<lambda>(tag, e). subject e) (events (fst (update_events t ev m)))
   = map (\<lambda>(tag, e). subject e) (events t)"
  by (auto simp: update_events_def Let_def)

lemma add_event_new_subject:
  assumes "one_per_subject t" and "subject (from_arg a) \<notin> (\<lambda>(tag, e). subject e) ` set (events t)"
  shows "one_per_subject (fst (add_event h t a))"
  using assms distinct_map_alist_update [of "\<lambda>(tag, e). subject e" "events t" _ "from_arg a" subject]
  by (simp add: add_event_def Let_def one_per_subject_def)

lemma tile1_eval: "events tile1 = [(event_tag 0, ev_idle)] \<and> event_cnt tile1 = 1"
  by (simp add: tile1_def tile0_def Tile_init_def add_event_def list_or_def)

lemma hash_differs: "example_hash (hash_key ev_idle) \<noteq> example_hash (hash_key ev_chat)"
  by (simp add: example_hash_def hash_key_def ev_idle_def ev_chat_def Event_init_def
      str_or_def list_or_def alice_def bob_def ascii_def ci_shi_def kong_xian_def dui_hua_def)

text \<open>
  C10. \<^verbatim>\<open>Event.update\<close> called with the predicate or the object omitted or falsy (\<^verbatim>\<open>None\<close>
  or the empty string) sets the predicate to the default U+6B64 U+65F6 and the object to
  the default U+7A7A U+95F2, whatever they were before; an omitted describe keeps the
  previous describe; subject, address and emoji are never changed.
\<close>

theorem Event_update_defaults:
  "predicate (Event_update e None ob d) = ci_shi
   \<and> predicate (Event_update e (Some []) ob d) = ci_shi
   \<and> object (Event_update e p None d) = kong_xian
   \<and> object (Event_update e p (Some []) d) = kong_xian
   \<and> describe (Event_update e p ob None) = describe e
   \<and> subject (Event_update e p ob d) = subject e
   \<and> address (Event_update e p ob d) = address e
   \<and> emoji (Event_update e p ob d) = emoji e"
  by (simp add: Event_update_def str_or_def)

text \<open>
  C9. \<^verbatim>\<open>Tile.add_event\<close> is idempotent on equal events: when the tile already holds an
  event with the same subject, predicate, object, describe and joined address (or, more
  generally, one that \<^verbatim>\<open>Event.__eq__\<close> finds equal), the tile, with its event map and its
  counter, is unchanged; the event is returned in every case; and a tile whose events
  are pairwise unequal stays so after \<^verbatim>\<open>add_event\<close>.
\<close>

theorem add_event_idempotent:
  "((\<exists>(tag, e) \<in> set (events t). hash_key e = hash_key (from_arg a))
      \<longrightarrow> add_event h t a = (t, from_arg a))
   \<and> ((\<exists>(tag, e) \<in> set (events t). Event_eq h e (from_arg a))
      \<longrightarrow> add_event h t a = (t, from_arg a))
   \<and> snd (add_event h t a) = from_arg a
   \<and> (no_equal_events h (map snd (events t))
      \<longrightarrow> no_equal_events h (map snd (events (fst (add_event h t a)))))"
proof -
  have eq: "add_event h t a = (t, from_arg a)"
    if "\<exists>(tag, e) \<in> set (events t). Event_eq h e (from_arg a)"
    using that by (auto simp: add_event_def Let_def list_all_iff)
  have key: "add_event h t a = (t, from_arg a)"
    if "\<exists>(tag, e) \<in> set (events t). hash_key e = hash_key (from_arg a)"
    using that eq by (fastforce intro: hash_key_Event_eq)
  have inv: "no_equal_events h (map snd (events (fst (add_event h t a))))"
    if "no_equal_events h (map snd (events t))"
    using that by (simp add: add_event_def Let_def no_equal_events_update)
  have ret: "snd (add_event h t a) = from_arg a"
    by (simp add: add_event_def Let_def)
  from eq key inv ret show ?thesis by blast
qed

theorem add_event_idempotent_witness:
  "(\<exists>(tag, e) \<in> set (events tile1). hash_key e = hash_key (from_arg (AsEvent ev_idle)))
   \<and> (\<exists>(tag, e) \<in> set (events tile1). Event_eq example_hash e (from_arg (AsEvent ev_idle)))
   \<and> add_event example_hash tile1 (AsEvent ev_idle) = (tile1, ev_idle)
   \<and> no_equal_events example_hash (map snd (events tile1))
   \<and> no_equal_events example_hash (map snd (events (fst (add_event example_hash tile1 (AsEvent ev_idle)))))"
  using add_event_idempotent [of tile1 "AsEvent ev_idle" example_hash]
  by (simp add: tile1_eval Event_eq_def)

text \<open>
  C3, as stated, fails: \<^verbatim>\<open>Tile.add_event\<close> only skips an event that is equal to one on the
  tile; an event with the same subject and another predicate is stored under a new tag
  beside the old one.
\<close>

theorem add_event_same_subject_counterexample:
  "one_per_subject tile1
   \<and> subject ev_chat = subject ev_idle
   \<and> events (fst (add_event example_hash tile1 (AsEvent ev_chat)))
       = [(event_tag 0, ev_idle), (event_tag 1, ev_chat)]
   \<and> subject_count (fst (add_event example_hash tile1 (AsEvent ev_chat))) alice = 2
   \<and> \<not> one_per_subject (fst (add_event example_hash tile1 (AsEvent ev_chat)))"
proof -
  have tags: "event_tag 0 \<noteq> event_tag 1"
    by (simp add: event_tag_def str_nat.simps)
  have subj: "subject ev_idle = alice" "subject ev_chat = alice"
    by (simp_all add: ev_idle_def ev_chat_def Event_init_def)
  have evs: "events (fst (add_event example_hash tile1 (AsEvent ev_chat)))
       = [(event_tag 0, ev_idle), (event_tag 1, ev_chat)]"
    using hash_differs tags by (simp add: add_event_def tile1_eval Event_eq_def)
  show ?thesis
    unfolding evs subject_count_def one_per_subject_def
    by (simp add: tile1_eval subj evs)
qed

text \<open>
  C3, amended. At most one event per subject is preserved by \<^verbatim>\<open>Tile.update_events\<close> (which
  is what replaces the event of a subject), by \<^verbatim>\<open>Tile.remove_events\<close>, by the
  update-else-add step of \<^verbatim>\<open>Agent.move\<close>, and by \<^verbatim>\<open>Tile.add_event\<close> when no event of
  the tile has the subject of the new event.
\<close>

theorem one_per_subject_preserved:
  "one_per_subject t \<longrightarrow>
     one_per_subject (fst (update_events t ev m))
   \<and> one_per_subject (fst (remove_events h t s r))
   \<and> one_per_subject (update_tile_event h t ev)
   \<and> (subject (from_arg a) \<notin> (\<lambda>(tag, e). subject e) ` set (events t)
        \<longrightarrow> one_per_subject (fst (add_event h t a)))"
proof
  assume inv: "one_per_subject t"
  have upd: "one_per_subject (fst (update_events t ev m))" for m
    using inv by (simp add: one_per_subject_def update_events_subjects)
  have rem: "one_per_subject (fst (remove_events h t s r))"
    using inv by (simp add: one_per_subject_def remove_events_def Let_def distinct_map_fold_delete)
  have add: "one_per_subject (fst (add_event h t a))"
    if "subject (from_arg a) \<notin> (\<lambda>(tag, e). subject e) ` set (events t)"
    using inv that by (rule add_event_new_subject)
  have til: "one_per_subject (update_tile_event h t ev)"
  proof (cases "snd (update_events t ev (ascii ''subject'')) = []")
    case True
    then have none: "subject ev \<notin> (\<lambda>(tag, e). subject e) ` set (events t)"
      by (auto simp: update_events_def Let_def filter_empty_conv)
    have same: "fst (update_events t ev (ascii ''subject'')) = t"
    proof -
      have "map (\<lambda>(tag, eve). if subject eve = subject ev then (tag, ev) else (tag, eve)) (events t)
            = events t"
        using none by (intro map_idI) (auto simp: image_iff)
      then show ?thesis by (simp add: update_events_def Let_def)
    qed
    have "one_per_subject (fst (add_event h t (AsEvent ev)))"
      using inv none by (intro add_event_new_subject) simp_all
    with True same show ?thesis
      by (simp add: update_tile_event_def case_prod_unfold)
  next
    case False
    with upd show ?thesis by (simp add: update_tile_event_def case_prod_unfold)
  qed
  from upd rem add til
  show "one_per_subject (fst (update_events t ev m))
   \<and> one_per_subject (fst (remove_events h t s r))
   \<and> one_per_subject (update_tile_event h t ev)
   \<and> (subject (from_arg a) \<notin> (\<lambda>(tag, e). subject e) ` set (events t)
        \<longrightarrow> one_per_subject (fst (add_event h t a)))" by blast
qed

theorem one_per_subject_preserved_witness:
  "one_per_subject tile1
   \<and> one_per_subject (fst (update_events tile1 ev_chat (ascii ''subject'')))
   \<and> one_per_subject (fst (remove_events example_hash tile1 (Some alice) None))
   \<and> one_per_subject (update_tile_event example_hash tile1 ev_chat)
   \<and> subject (from_arg (AsTriple bob None None)) \<notin> (\<lambda>(tag, e). subject e) ` set (events tile1)
   \<and> one_per_subject (fst (add_event example_hash tile1 (AsTriple bob None None)))"
proof -
  have inv: "one_per_subject tile1"
    by (simp add: one_per_subject_def tile1_eval)
  have new: "subject (from_arg (AsTriple bob None None)) \<notin> (\<lambda>(tag, e). subject e) ` set (events tile1)"
    by (simp add: tile1_eval Event_init_def ev_idle_def alice_def bob_def ascii_def)
  from inv new one_per_subject_preserved
    [of tile1 ev_chat "ascii ''subject''" example_hash "Some alice" None "AsTriple bob None None"]
  show ?thesis by blast
qed

subsection \<open>Neighbours in the maze\<close>

lemma tile_at_in_grid:
  assumes "grid_ok mz" and "in_grid mz c"
  shows "tile_at mz c = Inr (grid_tile mz c)"
proof -
  have y: "resolve_index (length (tiles mz)) (snd c) = Some (nat (snd c))"
    using assms by (simp add: grid_ok_def in_grid_def resolve_index_def)
  have "nat (snd c) < length (tiles mz)"
    using assms unfolding grid_ok_def in_grid_def by linarith
  then have "tiles mz ! nat (snd c) \<in> set (tiles mz)" by simp
  then have "int (length (tiles mz ! nat (snd c))) = maze_width mz"
    using assms(1) by (simp add: grid_ok_def list_all_iff)
  then have x: "resolve_index (length (tiles mz ! nat (snd c))) (fst c) = Some (nat (fst c))"
    using assms(2) by (simp add: in_grid_def resolve_index_def)
  show ?thesis
    by (simp add: tile_at_def py_index_def y x grid_tile_def)
qed

lemma keep_free_in_grid:
  "grid_ok mz \<Longrightarrow> list_all (in_grid mz) cs
   \<Longrightarrow> keep_free mz cs = Inr (filter (\<lambda>c. \<not> collision (grid_tile mz c)) cs)"
  by (induction cs) (simp_all add: tile_at_in_grid)

lemma plain_tile_collision: "collision (plain_tile c b) = b"
  by (simp add: plain_tile_def Tile_init_def list_or_def)

lemma open_maze_rows:
  "tiles open_maze =
     [[plain_tile (0, 0) False, plain_tile (1, 0) False, plain_tile (2, 0) False],
      [plain_tile (0, 1) False, plain_tile (1, 1) False, plain_tile (2, 1) False],
      [plain_tile (0, 2) False, plain_tile (1, 2) False, plain_tile (2, 2) False]]"
  "maze_height open_maze = 3" "maze_width open_maze = 3"
  by (simp_all add: open_maze_def maze_of_def enumerate_eq_zip numeral_3_eq_3 upt_rec)

lemma open_maze_tile_at:
  "tile_at open_maze (- 1, 0) = Inr (plain_tile (2, 0) False)"
  "tile_at open_maze (1, 0) = Inr (plain_tile (1, 0) False)"
  "tile_at open_maze (0, - 1) = Inr (plain_tile (0, 2) False)"
  "tile_at open_maze (0, 1) = Inr (plain_tile (0, 1) False)"
  "tile_at open_maze (1, 2) = Inr (plain_tile (1, 2) False)"
  "tile_at open_maze (3, 2) = Inl IndexError"
  by (simp_all add: tile_at_def py_index_def resolve_index_def open_maze_rows)

lemma open_maze_grid_ok: "grid_ok open_maze"
  by (simp add: grid_ok_def open_maze_rows)

text \<open>
  C7, as stated, fails: \<^verbatim>\<open>Maze.get_around\<close> clamps nothing. At the corner \<open>(0, 0)\<close> of a
  grid of walkable tiles it returns all four offsets, two of them outside the grid, after
  looking up \<open>(-1, 0)\<close> and \<open>(0, -1)\<close> in the last column and the last row; at the corner
  \<open>(2, 2)\<close> the lookup of \<open>(3, 2)\<close> raises \<^verbatim>\<open>IndexError\<close>.
\<close>

theorem get_around_corner_counterexample:
  "in_grid open_maze (0, 0) \<and> in_grid open_maze (2, 2)
   \<and> get_around open_maze (0, 0) True = Inr [(- 1, 0), (1, 0), (0, - 1), (0, 1)]
   \<and> \<not> in_grid open_maze (- 1, 0) \<and> \<not> in_grid open_maze (0, - 1)
   \<and> tile_at open_maze (- 1, 0) = Inr (plain_tile (2, 0) False)
   \<and> get_around open_maze (2, 2) True = Inl IndexError
   \<and> get_around open_maze (2, 2) False = Inr [(1, 2), (3, 2), (2, 1), (2, 3)]"
  by (simp add: get_around_def open_maze_tile_at plain_tile_collision in_grid_def open_maze_rows)

text \<open>
  C7, amended. For a coordinate whose four neighbours lie inside the grid (every tile
  that is not on the border), \<^verbatim>\<open>Maze.get_around\<close> looks up tiles inside the grid only and
  returns, in the order left, right, up, down, exactly the neighbours that are not
  collision tiles; without the collision filter it returns the four neighbours.
\<close>

theorem get_around_interior:
  assumes "grid_ok mz"
    and "0 < x" and "x < maze_width mz - 1" and "0 < y" and "y < maze_height mz - 1"
  shows "list_all (in_grid mz) [(x - 1, y), (x + 1, y), (x, y - 1), (x, y + 1)]
   \<and> get_around mz (x, y) True
       = Inr (filter (\<lambda>c. \<not> collision (grid_tile mz c))
                [(x - 1, y), (x + 1, y), (x, y - 1), (x, y + 1)])
   \<and> get_around mz (x, y) False = Inr [(x - 1, y), (x + 1, y), (x, y - 1), (x, y + 1)]"
proof -
  have inside: "list_all (in_grid mz) [(x - 1, y), (x + 1, y), (x, y - 1), (x, y + 1)]"
    using assms(2-5) by (simp add: in_grid_def)
  have "keep_free mz [(x - 1, y), (x + 1, y), (x, y - 1), (x, y + 1)]
        = Inr (filter (\<lambda>c. \<not> collision (grid_tile mz c))
                [(x - 1, y), (x + 1, y), (x, y - 1), (x, y + 1)])"
    using assms(1) inside by (rule keep_free_in_grid)
  then show ?thesis
    using inside by (simp add: get_around_def)
qed

theorem get_around_interior_witness:
  "grid_ok open_maze
   \<and> list_all (in_grid open_maze) [(0, 1), (2, 1), (1, 0), (1, 2)]
   \<and> get_around open_maze (1, 1) True = Inr [(0, 1), (2, 1), (1, 0), (1, 2)]
   \<and> get_around open_maze (1, 1) False = Inr [(0, 1), (2, 1), (1, 0), (1, 2)]"
  using get_around_interior [of open_maze 1 1] open_maze_grid_ok
  by (simp add: open_maze_rows grid_tile_def plain_tile_collision)

subsection \<open>Path finding\<close>

lemma bfs_stuck_aux:
  assumes "bfs mz dst m fr vis = Some r"
  shows "\<not> (fr = [] \<and> grid_get m dst = Inr 0)"
proof (rule bfs.raw_induct
    [where P = "\<lambda>mz dst m fr vis r. \<not> (fr = [] \<and> grid_get m dst = Inr 0)", OF _ assms])
  fix f :: "Maze \<Rightarrow> coord \<Rightarrow> grid \<Rightarrow> coord list \<Rightarrow> coord set \<Rightarrow> (py_error + grid) option"
  fix mz dst m fr vis r
  assume IH: "\<And>mz dst m fr vis r. f mz dst m fr vis = Some r
                \<Longrightarrow> \<not> (fr = [] \<and> grid_get m dst = Inr 0)"
    and step: "(case grid_get m dst of
                  Inl e \<Rightarrow> Some (Inl e)
                | Inr d \<Rightarrow>
                    if d = 0
                    then (case expand mz fr \<lparr> dist = m, new_frontier = [], visited = vis \<rparr> of
                            Inl e \<Rightarrow> Some (Inl e)
                          | Inr st \<Rightarrow> f mz dst (dist st) (new_frontier st) (visited st))
                    else Some (Inr m)) = Some r"
  show "\<not> (fr = [] \<and> grid_get m dst = Inr 0)"
  proof
    assume stuck: "fr = [] \<and> grid_get m dst = Inr 0"
    with step have "f mz dst m [] vis = Some r" by simp
    from IH [OF this] stuck show False by simp
  qed
qed

lemma bfs_stuck: "grid_get m dst = Inr 0 \<Longrightarrow> bfs mz dst m [] vis = None"
  using bfs_stuck_aux [of mz dst m "[]" vis] by (cases "bfs mz dst m [] vis") auto

lemma blocked_maze_rows:
  "maze_height blocked_maze = 5" "maze_width blocked_maze = 9"
  "tiles blocked_maze ! 2 =
     [plain_tile (0, 2) True, plain_tile (1, 2) True, plain_tile (2, 2) False,
      plain_tile (3, 2) False, plain_tile (4, 2) True, plain_tile (5, 2) False,
      plain_tile (6, 2) False, plain_tile (7, 2) True, plain_tile (8, 2) True]"
  "length (tiles blocked_maze) = 5"
  by (simp_all add: blocked_maze_def maze_of_def enumerate_eq_zip upt_rec eval_nat_numeral)

lemma blocked_tiles:
  "tiles blocked_maze =
    [map (\<lambda>x. plain_tile (x, 0) True) [0, 1, 2, 3, 4, 5, 6, 7, 8],
     map (\<lambda>x. plain_tile (x, 1) True) [0, 1, 2, 3, 4, 5, 6, 7, 8],
     [plain_tile (0, 2) True, plain_tile (1, 2) True, plain_tile (2, 2) False,
      plain_tile (3, 2) False, plain_tile (4, 2) True, plain_tile (5, 2) False,
      plain_tile (6, 2) False, plain_tile (7, 2) True, plain_tile (8, 2) True],
     map (\<lambda>x. plain_tile (x, 3) True) [0, 1, 2, 3, 4, 5, 6, 7, 8],
     map (\<lambda>x. plain_tile (x, 4) True) [0, 1, 2, 3, 4, 5, 6, 7, 8]]"
  by (simp add: blocked_maze_def maze_of_def enumerate_eq_zip upt_rec eval_nat_numeral)

lemma blocked_around:
  "get_around blocked_maze (2, 2) True = Inr [(3, 2)]"
  "get_around blocked_maze (3, 2) True = Inr [(2, 2)]"
  by (simp_all add: get_around_def tile_at_def py_index_def resolve_index_def blocked_tiles
      plain_tile_collision)

lemma g_steps:
  "grid_set g0 (2, 2) 1 = Inr g1"
  "grid_get g1 (6, 2) = Inr 0"
  "grid_get g1 (3, 2) = Inr 0"
  "grid_get g1 (2, 2) = Inr 1"
  "grid_set g1 (3, 2) 2 = Inr g2"
  "grid_get g2 (6, 2) = Inr 0"
  "grid_get g2 (2, 2) = Inr 1"
  by (simp_all add: g0_def g1_def g2_def grid_set_def grid_get_def py_index_def py_assign_def
      resolve_index_def eval_nat_numeral)

lemma blocked_expand1:
  "expand blocked_maze [(2, 2)] \<lparr> dist = g1, new_frontier = [], visited = {} \<rparr>
   = Inr \<lparr> dist = g2, new_frontier = [(3, 2)], visited = {(3, 2)} \<rparr>"
  by (simp add: blocked_around g_steps blocked_maze_rows)

lemma blocked_expand2:
  "expand blocked_maze [(3, 2)] \<lparr> dist = g2, new_frontier = [], visited = {(3, 2)} \<rparr>
   = Inr \<lparr> dist = g2, new_frontier = [], visited = {(3, 2)} \<rparr>"
  by (simp add: blocked_around g_steps blocked_maze_rows)

text \<open>
  In the open corridor the search reaches \<open>(6, 2)\<close> in four rounds and the way back gives
  the path from \<open>(2, 2)\<close> to \<open>(6, 2)\<close>.
\<close>

lemma corridor_tiles:
  "maze_height corridor_maze = 5" "maze_width corridor_maze = 9"
  "tiles corridor_maze =
    [map (\<lambda>x. plain_tile (x, 0) True) [0, 1, 2, 3, 4, 5, 6, 7, 8],
     map (\<lambda>x. plain_tile (x, 1) True) [0, 1, 2, 3, 4, 5, 6, 7, 8],
     [plain_tile (0, 2) True, plain_tile (1, 2) True, plain_tile (2, 2) False,
      plain_tile (3, 2) False, plain_tile (4, 2) False, plain_tile (5, 2) False,
      plain_tile (6, 2) False, plain_tile (7, 2) True, plain_tile (8, 2) True],
     map (\<lambda>x. plain_tile (x, 3) True) [0, 1, 2, 3, 4, 5, 6, 7, 8],
     map (\<lambda>x. plain_tile (x, 4) True) [0, 1, 2, 3, 4, 5, 6, 7, 8]]"
  by (simp_all add: corridor_maze_def maze_of_def enumerate_eq_zip upt_rec eval_nat_numeral)

lemma corridor_around:
  "get_around corridor_maze (2, 2) True = Inr [(3, 2)]"
  "get_around corridor_maze (3, 2) True = Inr [(2, 2), (4, 2)]"
  "get_around corridor_maze (4, 2) True = Inr [(3, 2), (5, 2)]"
  "get_around corridor_maze (5, 2) True = Inr [(4, 2), (6, 2)]"
  "get_around corridor_maze (6, 2) True = Inr [(5, 2)]"
  by (simp_all add: get_around_def tile_at_def py_index_def resolve_index_def corridor_tiles(3)
      plain_tile_collision)

lemma corridor_grids:
  "grid_get g2 (4, 2) = Inr 0" "grid_get g2 (3, 2) = Inr 2" "grid_set g2 (4, 2) 3 = Inr g3"
  "grid_get g3 (6, 2) = Inr 0" "grid_get g3 (3, 2) = Inr 2" "grid_get g3 (5, 2) = Inr 0"
  "grid_get g3 (4, 2) = Inr 3" "grid_set g3 (5, 2) 4 = Inr g4"
  "grid_get g4 (6, 2) = Inr 0" "grid_get g4 (4, 2) = Inr 3" "grid_get g4 (5, 2) = Inr 4"
  "grid_set g4 (6, 2) 5 = Inr g5"
  "grid_get g5 (6, 2) = Inr 5" "grid_get g5 (5, 2) = Inr 4" "grid_get g5 (4, 2) = Inr 3"
  "grid_get g5 (3, 2) = Inr 2" "grid_get g5 (2, 2) = Inr 1"
  by (simp_all add: g2_def g3_def g4_def g5_def grid_set_def grid_get_def py_index_def
      py_assign_def resolve_index_def eval_nat_numeral)

lemma corridor_expand:
  "expand corridor_maze [(2, 2)] \<lparr> dist = g1, new_frontier = [], visited = {} \<rparr>
   = Inr \<lparr> dist = g2, new_frontier = [(3, 2)], visited = {(3, 2)} \<rparr>"
  "expand corridor_maze [(3, 2)] \<lparr> dist = g2, new_frontier = [], visited = {(3, 2)} \<rparr>
   = Inr \<lparr> dist = g3, new_frontier = [(4, 2)], visited = {(4, 2), (3, 2)} \<rparr>"
  "expand corridor_maze [(4, 2)] \<lparr> dist = g3, new_frontier = [], visited = {(4, 2), (3, 2)} \<rparr>
   = Inr \<lparr> dist = g4, new_frontier = [(5, 2)], visited = {(5, 2), (4, 2), (3, 2)} \<rparr>"
  "expand corridor_maze [(5, 2)] \<lparr> dist = g4, new_frontier = [], visited = {(5, 2), (4, 2), (3, 2)} \<rparr>
   = Inr \<lparr> dist = g5, new_frontier = [(6, 2)], visited = {(6, 2), (5, 2), (4, 2), (3, 2)} \<rparr>"
  by (simp_all add: corridor_around g_steps corridor_grids corridor_tiles(1,2))

lemma corridor_bfs: "bfs corridor_maze (6, 2) g1 [(2, 2)] {} = Some (Inr g5)"
proof -
  have "bfs corridor_maze (6, 2) g5 [(6, 2)] {(6, 2), (5, 2), (4, 2), (3, 2)} = Some (Inr g5)"
    by (subst bfs.simps) (simp add: corridor_grids)
  then have "bfs corridor_maze (6, 2) g4 [(5, 2)] {(5, 2), (4, 2), (3, 2)} = Some (Inr g5)"
    by (subst bfs.simps) (simp add: corridor_grids corridor_expand del: expand.simps)
  then have "bfs corridor_maze (6, 2) g3 [(4, 2)] {(4, 2), (3, 2)} = Some (Inr g5)"
    by (subst bfs.simps) (simp add: corridor_grids corridor_expand del: expand.simps)
  then have "bfs corridor_maze (6, 2) g2 [(3, 2)] {(3, 2)} = Some (Inr g5)"
    by (subst bfs.simps) (simp add: g_steps corridor_expand del: expand.simps)
  then show ?thesis
    by (subst bfs.simps) (simp add: g_steps corridor_expand del: expand.simps)
qed

lemma corridor_backtrack:
  "backtrack corridor_maze g5 5 [(6, 2)] = Inr [(6, 2), (5, 2), (4, 2), (3, 2), (2, 2)]"
proof -
  have "backtrack corridor_maze g5 1 [(6, 2), (5, 2), (4, 2), (3, 2), (2, 2)]
        = Inr [(6, 2), (5, 2), (4, 2), (3, 2), (2, 2)]"
    by (subst backtrack.simps) simp
  then have "backtrack corridor_maze g5 2 [(6, 2), (5, 2), (4, 2), (3, 2)]
        = Inr [(6, 2), (5, 2), (4, 2), (3, 2), (2, 2)]"
    by (subst backtrack.simps) (simp add: corridor_around corridor_grids)
  then have "backtrack corridor_maze g5 3 [(6, 2), (5, 2), (4, 2)]
        = Inr [(6, 2), (5, 2), (4, 2), (3, 2), (2, 2)]"
    by (subst backtrack.simps) (simp add: corridor_around corridor_grids)
  then have "backtrack corridor_maze g5 4 [(6, 2), (5, 2)]
        = Inr [(6, 2), (5, 2), (4, 2), (3, 2), (2, 2)]"
    by (subst backtrack.simps) (simp add: corridor_around corridor_grids)
  then show ?thesis
    by (subst backtrack.simps) (simp add: corridor_around corridor_grids)
qed

lemma find_path_corridor:
  "find_path corridor_maze (2, 2) (6, 2) = Some (Inr [(2, 2), (3, 2), (4, 2), (5, 2), (6, 2)])"
  using g_steps(1)
  by (simp add: find_path_def corridor_tiles(1,2) g0_def corridor_bfs corridor_grids
      corridor_backtrack)

text \<open>
  C2. The corridor from \<open>(2, 2)\<close> to \<open>(6, 2)\<close> blocked at \<open>(4, 2)\<close>: the search marks \<open>(3, 2)\<close>,
  the next round finds nothing new, and from then on the frontier is empty while the
  destination is still unmarked, so the \<^verbatim>\<open>while\<close> loop runs for ever: \<^verbatim>\<open>find_path\<close> does not
  return, in particular it does not return an empty list.
\<close>

theorem find_path_blocked_never_returns:
  "find_path blocked_maze (2, 2) (6, 2) = None"
proof -
  have "bfs blocked_maze (6, 2) g2 [] {(3, 2)} = None"
    by (rule bfs_stuck) (simp add: g_steps)
  then have "bfs blocked_maze (6, 2) g2 [(3, 2)] {(3, 2)} = None"
    by (subst bfs.simps) (simp add: g_steps blocked_expand2 del: expand.simps)
  then have "bfs blocked_maze (6, 2) g1 [(2, 2)] {} = None"
    by (subst bfs.simps) (simp add: g_steps blocked_expand1 del: expand.simps)
  then show ?thesis
    using g_steps(1) by (simp add: find_path_def blocked_maze_rows g0_def)
qed

subsection \<open>The schedule\<close>

lemma scan_schedule_all_over:
  "list_all (\<lambda>p. snd (plan_stamps p) \<le> now) ds \<Longrightarrow> scan_schedule now ds = None"
  by (induction ds) simp_all

lemma scan_schedule_result:
  "scan_schedule now ds = Some (p, d) \<Longrightarrow> p \<in> set ds \<and> (d = p \<or> d \<in> set (p_decompose p))"
proof (induction ds)
  case Nil
  then show ?case by simp
next
  case (Cons a ds)
  have sub: "scan_decompose now xs = Some y \<Longrightarrow> y \<in> set xs" for xs y
    by (induction xs) (auto split: if_splits)
  from Cons show ?case
    by (auto split: if_splits option.splits dest: sub)
qed

text \<open>
  C8. \<^verbatim>\<open>Schedule.current_plan\<close> on an empty \<^verbatim>\<open>daily_schedule\<close> reaches \<^verbatim>\<open>daily_schedule[-1]\<close>
  and raises \<^verbatim>\<open>IndexError\<close>. On a non-empty schedule it always returns a pair of a plan of
  the schedule and either that plan or one of its sub-plans; when every plan has ended at
  the current minute it returns the last plan paired with itself.
\<close>

theorem current_plan_total:
  "current_plan [] now = Inl IndexError
   \<and> (ds \<noteq> [] \<longrightarrow> (\<exists>p d. current_plan ds now = Inr (p, d) \<and> p \<in> set ds
                         \<and> (d = p \<or> d \<in> set (p_decompose p))))
   \<and> (ds \<noteq> [] \<and> list_all (\<lambda>p. snd (plan_stamps p) \<le> now) ds
        \<longrightarrow> current_plan ds now = Inr (last ds, last ds))"
proof -
  have empty: "current_plan [] now = Inl IndexError"
    by (simp add: current_plan_def py_index_def resolve_index_def)
  have lastp: "py_index ds (- 1) = Inr (last ds)" if "ds \<noteq> []"
  proof -
    from that obtain x xs where ds: "ds = x # xs" by (cases ds) auto
    have "resolve_index (Suc n) (- 1) = Some n" for n
      by (simp add: resolve_index_def)
    then show ?thesis
      unfolding py_index_def ds by (simp add: last_conv_nth)
  qed
  have total: "\<exists>p d. current_plan ds now = Inr (p, d) \<and> p \<in> set ds
                 \<and> (d = p \<or> d \<in> set (p_decompose p))" if ne: "ds \<noteq> []"
  proof (cases "scan_schedule now ds")
    case None
    with lastp [OF ne] ne show ?thesis by (simp add: current_plan_def)
  next
    case (Some r)
    obtain p d where r: "r = (p, d)" by (cases r)
    with Some scan_schedule_result [of now ds p d] show ?thesis
      by (simp add: current_plan_def)
  qed
  have over: "current_plan ds now = Inr (last ds, last ds)"
    if "ds \<noteq> []" "list_all (\<lambda>p. snd (plan_stamps p) \<le> now) ds"
    using that lastp by (simp add: current_plan_def scan_schedule_all_over)
  from empty total over show ?thesis by blast
qed

theorem current_plan_total_witness:
  "day_plans \<noteq> []
   \<and> current_plan day_plans 370 = Inr (day_plans ! 1, Plan 0 (ascii ''cook'') 360 20 [])
   \<and> list_all (\<lambda>p. snd (plan_stamps p) \<le> 1000) day_plans
   \<and> current_plan day_plans 1000 = Inr (Plan 2 (ascii ''work'') 420 480 [], Plan 2 (ascii ''work'') 420 480 [])"
proof -
  have a: "day_plans \<noteq> []" by (simp add: day_plans_def)
  have b: "list_all (\<lambda>p. snd (plan_stamps p) \<le> 1000) day_plans"
    by (simp add: day_plans_def plan_stamps_def)
  have c: "current_plan day_plans 370 = Inr (day_plans ! 1, Plan 0 (ascii ''cook'') 360 20 [])"
    by (simp add: current_plan_def day_plans_def plan_stamps_def)
  have d: "last day_plans = Plan 2 (ascii ''work'') 420 480 []"
    by (simp add: day_plans_def)
  from current_plan_total [of 1000 day_plans] a b c d show ?thesis by simp
qed

text \<open>
  What \<^verbatim>\<open>Schedule.decompose\<close> computes: the first two tests return \<^verbatim>\<open>True\<close> unless the
  describe has an English and a Chinese keyword, and then the fourth test returns
  \<^verbatim>\<open>False\<close>; the tests on the duration are never reached.
\<close>

lemma decompose_eq:
  "decompose p =
     (p_decompose p = []
      \<and> \<not> ((str_in (ascii ''sleep'') (p_describe p) \<or> str_in (ascii ''bed'') (p_describe p))
           \<and> (str_in shui (p_describe p) \<or> str_in chuang (p_describe p))))"
  by (auto simp: decompose_def Let_def)

text \<open>
  C6. A plan without decomposition whose describe is the Chinese word for sleeping, with
  a duration of 480 minutes: \<^verbatim>\<open>Schedule.decompose\<close> answers \<^verbatim>\<open>True\<close>, because the first test
  finds neither "sleep" nor "bed" in the describe.
\<close>

theorem decompose_chinese_sleep:
  "p_decompose sleep_plan = [] \<and> str_in shui (p_describe sleep_plan)
   \<and> p_duration sleep_plan = 480 \<and> decompose sleep_plan = True"
  by (simp add: decompose_def sleep_plan_def shui_jiao_def shui_def chuang_def ascii_def)

subsection \<open>The language model client\<close>

text \<open>
  C5. The backend answers \<^verbatim>\<open>"0:00"\<close> on the first attempt and the callback parses it to the
  integer 0. The loop takes 0 as a response (it is not \<^verbatim>\<open>None\<close>) and the statistics count one
  call and one success, but \<^verbatim>\<open>return response or failsafe\<close> hands out the failsafe 6: no
  attempt failed, and the parsed response is not what is returned.
\<close>

theorem completion_falsy_response:
  "hour_callback (ascii ''0:00'') = Inr (PInt 0)
   \<and> completion midnight_backend 10 (Some hour_callback) (PInt 6) (ascii ''wake_up'') llm_init
     = Inr (PInt 6,
            \<lparr> meta_responses = [ascii ''0:00''],
              summary = [(ascii ''total'', [1, 1, 0]), (ascii ''wake_up'', [1, 1, 0])] \<rparr>)"
  by (simp add: completion_def llm_init_def setdefault_def bump_def midnight_backend_def
      digit_value_def ascii_def eval_nat_numeral)

subsection \<open>The associative memory\<close>

lemma node_ids:
  "ascii ''node_'' @ str_nat 0 = ascii ''node_0''"
  "ascii ''node_'' @ str_nat 2 = ascii ''node_2''"
  by (simp_all add: ascii_def str_nat.simps)

lemma node_ids_differ:
  "ascii ''node_2'' \<noteq> ascii ''node_0''" "ascii ''node_2'' \<noteq> ascii ''node_1''"
  "ascii ''node_1'' \<noteq> ascii ''node_0''" "ascii ''node_0'' \<noteq> ascii ''node_1''"
  "ascii ''node_0'' \<noteq> ascii ''node_2''" "ascii ''node_1'' \<noteq> ascii ''node_2''"
  "ascii ''event'' \<noteq> ascii ''thought''" "ascii ''event'' \<noteq> ascii ''chat''"
  by (simp_all add: ascii_def)

lemma full_memory_insert:
  "index_add_node (\<lambda>k. True) (a_index full_memory) mk
   = (\<lparr> max_nodes = 3,
        docs = [(ascii ''node_0'', old_node (ascii ''node_0'')),
                (ascii ''node_1'', old_node (ascii ''node_1'')),
                (ascii ''node_2'', mk (ascii ''node_2''))] \<rparr>,
      Inr (mk (ascii ''node_2'')))"
  by (simp add: index_add_node_def full_memory_def numeral_3_eq_3 Let_def node_ids
      node_ids_differ)

text \<open>
  C4. A memory of capacity 2 whose event list holds \<^verbatim>\<open>node_1\<close> and \<^verbatim>\<open>node_0\<close> receives a
  new event node \<^verbatim>\<open>node_2\<close>. The list has grown past the capacity, the oldest entry
  \<^verbatim>\<open>node_0\<close> is deleted from the store, but the list is cut to \<^verbatim>\<open>memory[:max_memory - 1]\<close>: it
  keeps \<^verbatim>\<open>node_2\<close> alone, not the two newest entries, and \<^verbatim>\<open>node_1\<close>, dropped from the list, is
  still in the store.
\<close>

theorem add_node_overflow_keeps_one:
  "map_of (memory full_memory) (ascii ''event'') = Some [ascii ''node_1'', ascii ''node_0'']
   \<and> max_memory full_memory = 2
   \<and> map_sum id
        (\<lambda>(a, c). (map_of (memory a) (ascii ''event''), map fst (docs (a_index a)),
                   map_option node_id c))
        (add_node (\<lambda>k. True) 100 full_memory (ascii ''event'') ev_read 3 None None)
      = Inr (Some [ascii ''node_2''], [ascii ''node_1'', ascii ''node_2''],
             Some (ascii ''node_2''))"
proof -
  have mem: "map_of (memory full_memory) (ascii ''event'') = Some [ascii ''node_1'', ascii ''node_0'']"
    "max_memory full_memory = 2"
    "memory full_memory = [(ascii ''event'', [ascii ''node_1'', ascii ''node_0'']),
                 (ascii ''thought'', []), (ascii ''chat'', [])]"
    by (simp_all add: full_memory_def)
  show ?thesis
    by (simp add: add_node_def Let_def full_memory_insert mem remove_nodes_def node_ids_differ
        from_node_def Concept_init_def)
qed

subsection \<open>Perception\<close>

text \<open>
  Whenever the memory stores the node and returns its concept, \<^verbatim>\<open>Agent._add_concept\<close>
  returns \<^verbatim>\<open>None\<close>.
\<close>

lemma add_concept_after_insert:
  assumes "ask en hint event = Inr poig"
    and "\<not> fit event None (Some (ascii ''is'')) (Some (ascii ''idle''))"
    and "\<not> fit event None (Some ci_shi) (Some kong_xian)"
    and "hint = (if e_type = ascii ''chat'' then ascii ''poignancy_chat'' else ascii ''poignancy_event'')"
    and "add_node ok (clock en) (associate ag) e_type event poig cr ex = Inr (a, Some c)"
  shows "add_concept en ok ag e_type event cr ex = Inr (ag\<lparr> associate := a \<rparr>, None)"
  using assms by (simp add: add_concept_def split: if_splits)


lemma empty_memory_insert:
  "\<exists>c. add_node (\<lambda>k. True) 100 empty_memory (ascii ''event'') ev_read 4 None None
       = Inr (read_memory, Some c)"
  by (simp add: add_node_def Let_def index_add_node_def numeral_3_eq_3 empty_memory_def
      node_ids(1) read_memory_def)

lemma ev_read_not_idle:
  "\<not> fit ev_read None (Some (ascii ''is'')) (Some (ascii ''idle''))"
  "\<not> fit ev_read None (Some ci_shi) (Some kong_xian)"
  "\<not> fit ev_read (Some (ascii ''Alice'')) (Some dui_hua) None"
  "object ev_read \<noteq> ascii ''idle''" "object ev_read \<noteq> kong_xian"
  by (simp_all add: fit_def ev_read_def Event_init_def truthy_str_def str_or_def ascii_def
      ci_shi_def kong_xian_def dui_hua_def)

lemma event_not_chat: "ascii ''event'' \<noteq> ascii ''chat''"
  by (simp add: ascii_def)

lemma alice_add_concept:
  "add_concept calm_env (\<lambda>k. True) (alice_agent\<lparr> concepts := [] \<rparr>) (ascii ''event'') ev_read None None
   = Inr (alice_agent\<lparr> associate := read_memory \<rparr>, None)"
proof -
  obtain c where "add_node (\<lambda>k. True) 100 empty_memory (ascii ''event'') ev_read 4 None None
       = Inr (read_memory, Some c)"
    using empty_memory_insert by blast
  then show ?thesis
    by (simp add: add_concept_def ev_read_not_idle calm_env_def alice_agent_def event_not_chat)
qed

lemma empty_memory_recent:
  "retrieve_nodes t empty_memory (ascii ''event'') = Inr []"
  "retrieve_nodes t empty_memory (ascii ''chat'') = Inr []"
  by (simp_all add: retrieve_nodes_def empty_memory_def py_take_def ascii_def)

text \<open>
  C1. Alice, with an empty memory and poignancy 0, perceives the event "Bob reads a book",
  which is new, not idle and not a chat; the model scores it 4 and the memory stores it as
  \<^verbatim>\<open>node_0\<close>. \<^verbatim>\<open>_add_concept\<close> returns \<^verbatim>\<open>None\<close>, so \<^verbatim>\<open>percept\<close> takes the branch that skips the
  update: after \<^verbatim>\<open>percept\<close> the poignancy is still 0 and the frame of concepts is empty,
  while the memory holds the node with poignancy 4.
\<close>

theorem percept_drops_poignancy:
  "map_sum id
     (\<lambda>ag. (status_poignancy ag, concepts ag,
            map_of (memory (associate ag)) (ascii ''event''),
            map (\<lambda>(i, nd). (i, m_poignancy nd)) (docs (a_index (associate ag)))))
     (percept calm_env alice_agent [ev_read] 8)
   = Inr (0, [], Some [ascii ''node_0''], [(ascii ''node_0'', 4)])"
proof -
  have loop: "percept_loop calm_env 0 [ev_read] (alice_agent\<lparr> concepts := [] \<rparr>, 0)
              = Inr (alice_agent\<lparr> associate := read_memory \<rparr>, 1)"
    using alice_add_concept
    by (simp add: empty_memory_recent ev_read_not_idle alice_agent_def calm_env_def)
  have band: "py_take 8 [ev_read] = [ev_read]"
    by (simp add: py_take_def)
  show ?thesis
    unfolding percept_def band loop
    by (simp add: alice_agent_def read_memory_def)
qed

end
